theory Spec2Isabelle
  imports Complex_Main "HOL-Library.AList"
begin

section \<open>Python built-ins used by trstats.py\<close>

text \<open>
  Text is modelled as \<open>string\<close>, one \<open>char\<close> per code point below 256. Latencies are
  Python floats; they are modelled as reals, so non-finite values and binary rounding error
  are outside the model. Exceptions are values of type \<open>error\<close>.
\<close>

datatype error = IndexError | ValueError | TypeError | StatisticsError

text \<open>\<open>str.isspace\<close> and the line boundaries of \<open>str.splitlines\<close>, below code point 256.\<close>

definition is_space :: "char \<Rightarrow> bool" where
  "is_space c = (c \<in> set [CHR 0x09, CHR 0x0A, CHR 0x0B, CHR 0x0C, CHR 0x0D, CHR 0x1C,
                           CHR 0x1D, CHR 0x1E, CHR 0x1F, CHR 0x20, CHR 0x85, CHR 0xA0])"

definition is_linebreak :: "char \<Rightarrow> bool" where
  "is_linebreak c = (c \<in> set [CHR 0x0A, CHR 0x0B, CHR 0x0C, CHR 0x0D, CHR 0x1C, CHR 0x1D,
                               CHR 0x1E, CHR 0x85])"

text \<open>\<open>s.splitlines()\<close>: the argument \<open>cur\<close> is the line read so far.\<close>

fun splitlines_from :: "string \<Rightarrow> string \<Rightarrow> string list" where
  "splitlines_from cur [] = (if cur = [] then [] else [cur])"
| "splitlines_from cur [c] = (if is_linebreak c then [cur] else [cur @ [c]])"
| "splitlines_from cur (c # d # cs) =
     (if c = CHR 0x0D \<and> d = CHR 0x0A then cur # splitlines_from [] cs
      else if is_linebreak c then cur # splitlines_from [] (d # cs)
      else splitlines_from (cur @ [c]) (d # cs))"

definition splitlines :: "string \<Rightarrow> string list" where
  "splitlines s = splitlines_from [] s"

text \<open>\<open>s.split()\<close> with no separator: runs of whitespace separate, no empty tokens.\<close>

fun split_from :: "string \<Rightarrow> string \<Rightarrow> string list" where
  "split_from cur [] = (if cur = [] then [] else [cur])"
| "split_from cur (c # cs) =
     (if is_space c then (if cur = [] then split_from [] cs else cur # split_from [] cs)
      else split_from (cur @ [c]) cs)"

definition py_split :: "string \<Rightarrow> string list" where
  "py_split s = split_from [] s"

text \<open>\<open>sub in s\<close> on strings: \<open>sub\<close> occurs as a contiguous substring of \<open>s\<close>.\<close>

fun py_in :: "string \<Rightarrow> string \<Rightarrow> bool" where
  "py_in sub [] = (sub = [])"
| "py_in sub (c # cs) = (take (length sub) (c # cs) = sub \<or> py_in sub cs)"

text \<open>\<open>max\<close> and \<open>min\<close> of a list raise ValueError on the empty list.\<close>

fun py_max :: "real list \<Rightarrow> error + real" where
  "py_max [] = Inl ValueError"
| "py_max (x # xs) = Inr (fold max xs x)"

fun py_min :: "real list \<Rightarrow> error + real" where
  "py_min [] = Inl ValueError"
| "py_min (x # xs) = Inr (fold min xs x)"

text \<open>\<open>statistics.mean\<close> and \<open>statistics.median\<close> raise StatisticsError on no data.\<close>

definition py_mean :: "real list \<Rightarrow> error + real" where
  "py_mean xs = (if xs = [] then Inl StatisticsError
                 else Inr (sum_list xs / real (length xs)))"

definition py_median :: "real list \<Rightarrow> error + real" where
  "py_median xs =
     (let d = sort xs; n = length d in
      if n = 0 then Inl StatisticsError
      else if n mod 2 = 1 then Inr (d ! (n div 2))
      else Inr ((d ! (n div 2 - 1) + d ! (n div 2)) / 2))"

text \<open>
  \<open>round(x, n)\<close>: the nearest multiple of \<open>10 ^ -n\<close>, a tie going to the even one.
\<close>

definition round_half_even :: "real \<Rightarrow> int" where
  "round_half_even x =
     (let f = \<lfloor>x\<rfloor>; d = x - of_int f in
      if d < 1 / 2 then f else if 1 / 2 < d then f + 1
      else if even f then f else f + 1)"

definition py_round :: "real \<Rightarrow> nat \<Rightarrow> real" where
  "py_round x n = of_int (round_half_even (x * 10 ^ n)) / 10 ^ n"

text \<open>
  \<open>int(s)\<close> on a string: surrounding whitespace is stripped, a sign may lead, and single
  underscores may stand between digits. \<open>None\<close> is ValueError.
\<close>

definition is_digit :: "char \<Rightarrow> bool" where
  "is_digit c = (c \<in> set ''0123456789'')"

definition digit_val :: "char \<Rightarrow> nat" where
  "digit_val c = of_char c - 48"

fun int_digits :: "nat \<Rightarrow> string \<Rightarrow> nat option" where
  "int_digits acc [] = None"
| "int_digits acc [c] = (if is_digit c then Some (10 * acc + digit_val c) else None)"
| "int_digits acc (c # d # cs) =
     (if is_digit c then
        (if d = CHR ''_'' then int_digits (10 * acc + digit_val c) cs
         else int_digits (10 * acc + digit_val c) (d # cs))
      else None)"

definition strip :: "string \<Rightarrow> string" where
  "strip s = rev (dropWhile is_space (rev (dropWhile is_space s)))"

definition py_int :: "string \<Rightarrow> int option" where
  "py_int s =
     (case strip s of
        [] \<Rightarrow> None
      | c # cs \<Rightarrow>
          if c = CHR ''-'' then map_option (\<lambda>n. - int n) (int_digits 0 cs)
          else if c = CHR ''+'' then map_option int (int_digits 0 cs)
          else map_option int (int_digits 0 (c # cs)))"

text \<open>
  \<open>float(s)\<close> is a parameter \<open>fl\<close> of the parser (\<open>None\<close> is ValueError). For running the
  parser on concrete text, \<open>dec_float\<close> reads the plain decimal literals that traceroute
  prints: an optional sign, digits, and an optional point followed by digits.
\<close>

definition digits_nat :: "string \<Rightarrow> nat" where
  "digits_nat ds = foldl (\<lambda>a c. 10 * a + digit_val c) 0 ds"

definition dec_float :: "string \<Rightarrow> real option" where
  "dec_float s =
     (let neg = (s \<noteq> [] \<and> hd s = CHR ''-'');
          body = (if s \<noteq> [] \<and> (hd s = CHR ''-'' \<or> hd s = CHR ''+'') then tl s else s);
          ip = takeWhile is_digit body;
          rest = dropWhile is_digit body;
          fp = (case rest of
                  [] \<Rightarrow> Some []
                | c # cs \<Rightarrow> if c = CHR ''.'' \<and> list_all is_digit cs then Some cs else None)
      in case fp of
           None \<Rightarrow> None
         | Some fd \<Rightarrow>
             if ip = [] \<and> fd = [] then None
             else Some ((if neg then - 1 else 1) *
                        (real (digits_nat ip) + real (digits_nat fd) / 10 ^ length fd)))"

section \<open>The parser: parse_traceroute_output\<close>

record TracerouteOutput =
  avg :: "real option"
  hop :: string
  hosts :: "(string \<times> string) list"
  maximum :: "real option"
  median :: "real option"
  minimum :: "real option"

type_synonym latencies = "(string \<times> real list) list"

text \<open>\<open>parts[1:4] == ["*"] * 3\<close>\<close>

definition is_timeout :: "string list \<Rightarrow> bool" where
  "is_timeout parts = (take 3 (drop 1 parts) = replicate 3 ''*'')"

text \<open>
  One iteration of the loop \<open>for i in range(1, len(parts))\<close>; the state is the pair
  \<open>(times, hosts)\<close>. The \<open>continue\<close> of the ValueError handler leaves the state as it is.
\<close>

definition scan_step ::
  "(string \<Rightarrow> real option) \<Rightarrow> string list \<Rightarrow> nat \<Rightarrow>
   real list \<times> (string \<times> string) list \<Rightarrow> real list \<times> (string \<times> string) list" where
  "scan_step fl parts i st =
     (let part = parts ! i in
      if CHR ''('' \<in> set part \<and> CHR '')'' \<in> set part then
        (fst st, snd st @ [(parts ! (i - 1), part)])
      else if py_in ''ms'' part then
        (case fl (parts ! (i - 1)) of
           Some t \<Rightarrow> (fst st @ [t], snd st)
         | None \<Rightarrow> st)
      else st)"

definition scan_parts ::
  "(string \<Rightarrow> real option) \<Rightarrow> string list \<Rightarrow> real list \<times> (string \<times> string) list" where
  "scan_parts fl parts = fold (scan_step fl parts) [1..<length parts] ([], [])"

definition lat_get :: "latencies \<Rightarrow> string \<Rightarrow> real list" where
  "lat_get lat k = (case map_of lat k of None \<Rightarrow> [] | Some v \<Rightarrow> v)"

text \<open>
  The body of \<open>for hop in hops\<close>. The state is \<open>(parsed_output, latencies_per_hop)\<close>;
  \<open>parts[0]\<close> raises IndexError on a line without tokens.
\<close>

definition parse_hop ::
  "(string \<Rightarrow> real option) \<Rightarrow> string \<Rightarrow> TracerouteOutput list \<times> latencies \<Rightarrow>
   error + TracerouteOutput list \<times> latencies" where
  "parse_hop fl line st =
     (let parts = py_split line in
      if parts = [] then Inl IndexError
      else
        let hop_number = parts ! 0 in
        if is_timeout parts then
          Inr (fst st @ [\<lparr>avg = None, hop = hop_number, hosts = [], maximum = None,
                          median = None, minimum = None\<rparr>], snd st)
        else
          let times = fst (scan_parts fl parts); hs = snd (scan_parts fl parts) in
          if times \<noteq> [] then
            (case py_max times of Inl e \<Rightarrow> Inl e | Inr mx \<Rightarrow>
             case py_max times of Inl e \<Rightarrow> Inl e | Inr mn \<Rightarrow>
             case py_median times of Inl e \<Rightarrow> Inl e | Inr md \<Rightarrow>
               Inr (fst st @ [\<lparr>avg = Some (py_round (sum_list times / real (length times)) 2),
                               hop = hop_number, hosts = hs, maximum = Some mx,
                               median = Some md, minimum = Some mn\<rparr>],
                    AList.update hop_number (lat_get (snd st) hop_number @ times) (snd st)))
          else Inr st)"

fun parse_hops ::
  "(string \<Rightarrow> real option) \<Rightarrow> string list \<Rightarrow> TracerouteOutput list \<times> latencies \<Rightarrow>
   error + TracerouteOutput list \<times> latencies" where
  "parse_hops fl [] st = Inr st"
| "parse_hops fl (l # ls) st =
     (case parse_hop fl l st of Inl e \<Rightarrow> Inl e | Inr st' \<Rightarrow> parse_hops fl ls st')"

definition parse_traceroute_output ::
  "(string \<Rightarrow> real option) \<Rightarrow> string \<Rightarrow> latencies \<Rightarrow>
   error + TracerouteOutput list \<times> latencies" where
  "parse_traceroute_output fl traceroute_data latencies_per_hop =
     parse_hops fl (drop 1 (splitlines traceroute_data)) ([], latencies_per_hop)"

text \<open>
  The loop of \<open>use_test_directory\<close>. The contents of the files are given as a list, in the
  order of \<open>os.listdir\<close>. The state is \<open>(cumulative_data, latencies_per_hop)\<close>; every
  file is parsed with the latency map as the files before it left it, and an exception of
  the parser is not caught.
\<close>

fun parse_runs ::
  "(string \<Rightarrow> real option) \<Rightarrow> string list \<Rightarrow> TracerouteOutput list list \<times> latencies \<Rightarrow>
   error + TracerouteOutput list list \<times> latencies" where
  "parse_runs fl [] st = Inr st"
| "parse_runs fl (d # ds) st =
     (case parse_traceroute_output fl d (snd st) of
        Inl e \<Rightarrow> Inl e
      | Inr res \<Rightarrow> parse_runs fl ds (fst st @ [fst res], snd res))"

definition use_test_directory ::
  "(string \<Rightarrow> real option) \<Rightarrow> string list \<Rightarrow>
   error + TracerouteOutput list list \<times> latencies" where
  "use_test_directory fl files = parse_runs fl files ([], [])"

section \<open>The aggregator: get_statistics_per_hop\<close>

text \<open>
  \<open>hop_data\<close> is a dict from hop to a dict of five lists; it is an association list in
  insertion order, and the inner dict is the record \<open>hop_acc\<close> (keys \<open>'avg'\<close>, \<open>'max'\<close>,
  \<open>'med'\<close>, \<open>'min'\<close>, \<open>'hosts'\<close>). The four numeric lists hold the fields of the records
  as they are, so their elements are optional numbers.
\<close>

record hop_acc =
  a_avg :: "real option list"
  a_max :: "real option list"
  a_med :: "real option list"
  a_min :: "real option list"
  a_hosts :: "(string \<times> string) list list"

definition empty_acc :: hop_acc where
  "empty_acc = \<lparr>a_avg = [], a_max = [], a_med = [], a_min = [], a_hosts = []\<rparr>"

text \<open>Truth value of \<open>result.avg\<close>: \<open>None\<close> and \<open>0.0\<close> are false.\<close>

definition truthy :: "real option \<Rightarrow> bool" where
  "truthy v = (case v of None \<Rightarrow> False | Some x \<Rightarrow> x \<noteq> 0)"

definition append_result :: "TracerouteOutput \<Rightarrow> hop_acc \<Rightarrow> hop_acc" where
  "append_result result d =
     \<lparr>a_avg = a_avg d @ [avg result],
      a_max = a_max d @ [maximum result],
      a_med = a_med d @ [median result],
      a_min = a_min d @ [minimum result],
      a_hosts = a_hosts d @ [hosts result]\<rparr>"

text \<open>The body of \<open>for result in run\<close>.\<close>

definition add_result ::
  "TracerouteOutput \<Rightarrow> (string \<times> hop_acc) list \<Rightarrow> (string \<times> hop_acc) list" where
  "add_result result hop_data =
     (let hop_data1 = (if map_of hop_data (hop result) = None
                       then AList.update (hop result) empty_acc hop_data else hop_data)
      in if truthy (avg result)
         then AList.map_entry (hop result) (append_result result) hop_data1
         else hop_data1)"

definition group_by_hop :: "TracerouteOutput list list \<Rightarrow> (string \<times> hop_acc) list" where
  "group_by_hop cumulative_data = fold (\<lambda>run hop_data. fold add_result run hop_data) cumulative_data []"

text \<open>
  The aggregate dict, keys \<open>'avg'\<close>, \<open>'hop'\<close>, \<open>'hosts'\<close>, \<open>'max'\<close>, \<open>'med'\<close>, \<open>'min'\<close>.
\<close>

record hop_stats =
  s_avg :: "real option"
  s_hop :: string
  s_hosts :: "(string \<times> string) list list"
  s_max :: "real option"
  s_med :: "real option"
  s_min :: "real option"

text \<open>
  \<open>round(f(xs), 3) if xs else None\<close>. A \<open>None\<close> among the values makes the comparison of
  \<open>max\<close>, \<open>min\<close> and \<open>sorted\<close>, or else \<open>round\<close>, raise TypeError.
\<close>

definition stat_of ::
  "(real list \<Rightarrow> error + real) \<Rightarrow> real option list \<Rightarrow> error + real option" where
  "stat_of f vs =
     (if vs = [] then Inr None
      else case those vs of
             None \<Rightarrow> Inl TypeError
           | Some xs \<Rightarrow> (case f xs of Inl e \<Rightarrow> Inl e | Inr v \<Rightarrow> Inr (Some (py_round v 3))))"

definition hop_stats_of :: "string \<times> hop_acc \<Rightarrow> error + hop_stats" where
  "hop_stats_of e =
     (case stat_of py_mean (a_avg (snd e)) of Inl x \<Rightarrow> Inl x | Inr av \<Rightarrow>
      case stat_of py_max (a_max (snd e)) of Inl x \<Rightarrow> Inl x | Inr mx \<Rightarrow>
      case stat_of py_median (a_med (snd e)) of Inl x \<Rightarrow> Inl x | Inr md \<Rightarrow>
      case stat_of py_min (a_min (snd e)) of Inl x \<Rightarrow> Inl x | Inr mn \<Rightarrow>
        Inr \<lparr>s_avg = av, s_hop = fst e, s_hosts = a_hosts (snd e), s_max = mx,
             s_med = md, s_min = mn\<rparr>)"

fun map_err :: "('a \<Rightarrow> error + 'b) \<Rightarrow> 'a list \<Rightarrow> error + 'b list" where
  "map_err f [] = Inr []"
| "map_err f (x # xs) =
     (case f x of Inl e \<Rightarrow> Inl e | Inr y \<Rightarrow>
      case map_err f xs of Inl e \<Rightarrow> Inl e | Inr ys \<Rightarrow> Inr (y # ys))"

text \<open>
  \<open>stats_by_hop.sort(key=lambda x: int(x['hop']))\<close>: the key of every element is computed
  first (ValueError if one is no integer literal), then the list is sorted stably.
\<close>

definition sort_by_hop :: "hop_stats list \<Rightarrow> error + hop_stats list" where
  "sort_by_hop stats =
     (case those (map (\<lambda>x. map_option (\<lambda>k. (k, x)) (py_int (s_hop x))) stats) of
        None \<Rightarrow> Inl ValueError
      | Some kxs \<Rightarrow> Inr (map snd (sort_key fst kxs)))"

definition get_statistics_per_hop :: "TracerouteOutput list list \<Rightarrow> error + hop_stats list" where
  "get_statistics_per_hop cumulative_data =
     (case map_err hop_stats_of (group_by_hop cumulative_data) of
        Inl e \<Rightarrow> Inl e
      | Inr stats_by_hop \<Rightarrow> sort_by_hop stats_by_hop)"

section \<open>Notions used to state the properties\<close>

text \<open>
  The records that reach the accumulator of hop \<open>h\<close>: those of that hop whose average is
  truthy, in the order in which the two loops meet them.
\<close>

definition contrib :: "string \<Rightarrow> TracerouteOutput list \<Rightarrow> TracerouteOutput list" where
  "contrib h rs = filter (\<lambda>r. hop r = h \<and> truthy (avg r)) rs"

text \<open>The accumulator that a list of contributing records builds.\<close>

definition acc_of :: "TracerouteOutput list \<Rightarrow> hop_acc" where
  "acc_of cs = \<lparr>a_avg = map avg cs, a_max = map maximum cs, a_med = map median cs,
                a_min = map minimum cs, a_hosts = map hosts cs\<rparr>"

text \<open>The sort key of an aggregate record whose hop is an integer literal.\<close>

definition hop_key :: "hop_stats \<Rightarrow> int" where
  "hop_key x = the (py_int (s_hop x))"

text \<open>A record whose four numeric fields are all null or all non-null.\<close>

definition all_or_none :: "TracerouteOutput \<Rightarrow> bool" where
  "all_or_none r =
     ((avg r = None \<and> maximum r = None \<and> median r = None \<and> minimum r = None) \<or>
      (avg r \<noteq> None \<and> maximum r \<noteq> None \<and> median r \<noteq> None \<and> minimum r \<noteq> None))"

text \<open>
  What the parser writes into a record: nothing at all for a timeout line, and otherwise an
  average rounded to two places, a median, and one and the same value as maximum and minimum.
\<close>

definition parsed_ok :: "TracerouteOutput \<Rightarrow> bool" where
  "parsed_ok r =
     ((avg r = None \<and> maximum r = None \<and> median r = None \<and> minimum r = None) \<or>
      (\<exists>x mx md. avg r = Some (py_round x 2) \<and> maximum r = Some mx \<and>
                  median r = Some md \<and> minimum r = Some mx))"

section \<open>Auxiliary facts\<close>

lemma acc_of_Nil: "acc_of [] = empty_acc"
  by (simp add: acc_of_def empty_acc_def)

lemma append_result_acc_of: "append_result r (acc_of cs) = acc_of (cs @ [r])"
  by (simp add: acc_of_def append_result_def)

lemma add_result_keys: "fst ` set (add_result r acc) = insert (hop r) (fst ` set acc)"
  by (auto simp: add_result_def Let_def AList.dom_map_entry AList.dom_update
      map_of_eq_None_iff)

lemma add_result_distinct:
  "distinct (map fst acc) \<Longrightarrow> distinct (map fst (add_result r acc))"
  by (simp add: add_result_def Let_def AList.distinct_map_entry AList.distinct_update)

lemma add_result_map_of:
  "map_of (add_result r acc) h =
     (if h = hop r
      then Some ((if truthy (avg r) then append_result r else id)
                   (case map_of acc h of None \<Rightarrow> empty_acc | Some d \<Rightarrow> d))
      else map_of acc h)"
  by (auto simp: add_result_def Let_def AList.map_of_map_entry AList.update_conv'
      split: option.splits)

lemma fold_add_result_keys: "fst ` set (fold add_result rs []) = hop ` set rs"
  by (induction rs rule: rev_induct) (auto simp: add_result_keys)

lemma fold_add_result_distinct: "distinct (map fst (fold add_result rs []))"
  by (induction rs rule: rev_induct) (auto simp: add_result_distinct)

lemma fold_add_result_map_of:
  "map_of (fold add_result rs []) h =
     (if h \<in> hop ` set rs then Some (acc_of (contrib h rs)) else None)"
proof (induction rs rule: rev_induct)
  case Nil
  show ?case by simp
next
  case (snoc r rs)
  have none: "contrib (hop r) rs = []" if "hop r \<notin> hop ` set rs"
  proof -
    have "\<forall>x\<in>set rs. hop x \<noteq> hop r" using that by (metis image_eqI)
    then show ?thesis by (simp add: contrib_def filter_empty_conv)
  qed
  show ?case
  proof (cases "h = hop r")
    case False
    then show ?thesis using snoc by (simp add: add_result_map_of contrib_def)
  next
    case True
    have c: "contrib h (rs @ [r]) = contrib h rs @ (if truthy (avg r) then [r] else [])"
      using True by (simp add: contrib_def)
    show ?thesis
    proof (cases "hop r \<in> hop ` set rs")
      case True
      then show ?thesis using snoc \<open>h = hop r\<close> c
        by (simp add: add_result_map_of append_result_acc_of)
    next
      case False
      then show ?thesis using snoc \<open>h = hop r\<close> c none
        by (simp add: add_result_map_of append_result_acc_of acc_of_Nil [symmetric])
    qed
  qed
qed

lemma fold_fold_concat: "fold (\<lambda>xs s. fold f xs s) xss s = fold f (concat xss) s"
  by (induction xss arbitrary: s) simp_all

lemma group_by_hop_concat: "group_by_hop runs = fold add_result (concat runs) []"
  by (simp add: group_by_hop_def fold_fold_concat)

lemma group_by_hop_entry:
  assumes "(h, d) \<in> set (group_by_hop runs)"
  shows "h \<in> hop ` set (concat runs) \<and> d = acc_of (contrib h (concat runs))"
proof -
  have "map_of (group_by_hop runs) h = Some d"
    using assms by (simp add: group_by_hop_concat fold_add_result_distinct)
  then show ?thesis
    by (simp add: group_by_hop_concat fold_add_result_map_of split: if_splits)
qed

lemma map_err_Inr:
  "map_err f xs = Inr ys \<Longrightarrow> list_all2 (\<lambda>x y. f x = Inr y) xs ys"
  by (induction xs arbitrary: ys) (auto split: sum.splits)

lemma list_all2_in_set2:
  "list_all2 P xs ys \<Longrightarrow> y \<in> set ys \<Longrightarrow> \<exists>x\<in>set xs. P x y"
  by (induction rule: list_all2_induct) auto

lemma map_err_total:
  "(\<And>x. x \<in> set xs \<Longrightarrow> \<exists>y. f x = Inr y) \<Longrightarrow> \<exists>ys. map_err f xs = Inr ys"
  by (induction xs) (fastforce split: sum.splits)+

lemma those_map_Some:
  "those (map g xs) = Some ys \<longleftrightarrow> (\<forall>x\<in>set xs. g x \<noteq> None) \<and> ys = map (\<lambda>x. the (g x)) xs"
  by (induction xs arbitrary: ys) (auto split: option.splits)

lemma sort_key_decorated_aux:
  "sort_key fst (map (\<lambda>y. (k y, y)) xs) = map (\<lambda>y. (k y, y)) (sort_key k xs)"
proof (induction xs)
  case Nil
  show ?case by simp
next
  case (Cons x xs)
  have "insort_key fst (k x, x) (map (\<lambda>y. (k y, y)) ys) = map (\<lambda>y. (k y, y)) (insort_key k x ys)" for ys
    by (induction ys) auto
  then show ?case using Cons by simp
qed

lemma sort_key_decorated:
  "map snd (sort_key fst (map (\<lambda>y. (k y, y)) xs)) = sort_key k xs"
  by (simp add: sort_key_decorated_aux o_def)

lemma sort_by_hop_Inr:
  "sort_by_hop stats = Inr res \<longleftrightarrow>
     (\<forall>x\<in>set stats. py_int (s_hop x) \<noteq> None) \<and> res = sort_key hop_key stats"
proof -
  let ?g = "\<lambda>x. map_option (\<lambda>k. (k, x)) (py_int (s_hop x))"
  have g: "\<forall>x\<in>set stats. py_int (s_hop x) \<noteq> None \<Longrightarrow>
        map (\<lambda>x. the (?g x)) stats = map (\<lambda>y. (hop_key y, y)) stats"
    by (auto simp: hop_key_def)
  show ?thesis
  proof (cases "those (map ?g stats)")
    case None
    then have "\<not> (\<forall>x\<in>set stats. ?g x \<noteq> None)"
      using those_map_Some [of ?g stats] by auto
    then show ?thesis using None by (auto simp: sort_by_hop_def)
  next
    case (Some kxs)
    then have a: "\<forall>x\<in>set stats. py_int (s_hop x) \<noteq> None" and b: "kxs = map (\<lambda>x. the (?g x)) stats"
      using those_map_Some [of ?g stats kxs] by auto
    show ?thesis using Some a b g [OF a]
      by (auto simp: sort_by_hop_def sort_key_decorated)
  qed
qed

lemma stats_Inr:
  assumes "get_statistics_per_hop runs = Inr res"
  obtains stats where "map_err hop_stats_of (group_by_hop runs) = Inr stats"
    and "\<forall>x\<in>set stats. py_int (s_hop x) \<noteq> None" and "res = sort_key hop_key stats"
  using assms by (auto simp: get_statistics_per_hop_def sort_by_hop_Inr split: sum.splits)

lemma hop_stats_of_hop: "hop_stats_of e = Inr s \<Longrightarrow> s_hop s = fst e"
  by (auto simp: hop_stats_of_def split: sum.splits)

lemma stats_member:
  assumes "get_statistics_per_hop runs = Inr res" and "s \<in> set res"
  shows "s_hop s \<in> hop ` set (concat runs) \<and>
         hop_stats_of (s_hop s, acc_of (contrib (s_hop s) (concat runs))) = Inr s"
proof -
  obtain stats where m: "map_err hop_stats_of (group_by_hop runs) = Inr stats"
    and r: "res = sort_key hop_key stats"
    using assms(1) by (rule stats_Inr)
  have "s \<in> set stats" using assms(2) r by simp
  then obtain e where e: "e \<in> set (group_by_hop runs)" "hop_stats_of e = Inr s"
    using list_all2_in_set2 [OF map_err_Inr [OF m]] by blast
  obtain h d where hd: "e = (h, d)" by (cases e)
  have "s_hop s = h" using hop_stats_of_hop [OF e(2)] hd by simp
  then show ?thesis using group_by_hop_entry [of h d runs] e hd by auto
qed

lemma stats_hops:
  assumes "get_statistics_per_hop runs = Inr res"
  shows "set (map s_hop res) = hop ` set (concat runs) \<and> distinct (map s_hop res)"
proof -
  obtain stats where m: "map_err hop_stats_of (group_by_hop runs) = Inr stats"
    and r: "res = sort_key hop_key stats"
    using assms(1) by (rule stats_Inr)
  have e: "map s_hop stats = map fst (group_by_hop runs)"
    using map_err_Inr [OF m]
    by (induction rule: list_all2_induct) (auto simp: hop_stats_of_hop)
  have "distinct (map s_hop stats)"
    using e by (simp add: group_by_hop_concat fold_add_result_distinct)
  then have "distinct (map s_hop res)"
    using r by (simp add: distinct_map)
  moreover have "set (map s_hop res) = set (map s_hop stats)"
    using r by simp
  ultimately show ?thesis
    using e fold_add_result_keys [of "concat runs"] by (simp add: group_by_hop_concat)
qed

lemma stats_sorted:
  assumes "get_statistics_per_hop runs = Inr res"
  shows "(\<forall>s\<in>set res. py_int (s_hop s) \<noteq> None) \<and> sorted (map hop_key res)"
proof -
  obtain stats where "\<forall>x\<in>set stats. py_int (s_hop x) \<noteq> None"
    and r: "res = sort_key hop_key stats"
    using assms(1) by (rule stats_Inr)
  then show ?thesis by simp
qed

lemma py_max_nonempty: "xs \<noteq> [] \<Longrightarrow> py_max xs = Inr (Max (set xs))"
  by (cases xs) (simp_all add: Max.set_eq_fold [symmetric] del: set_simps)

lemma py_min_nonempty: "xs \<noteq> [] \<Longrightarrow> py_min xs = Inr (Min (set xs))"
  by (cases xs) (simp_all add: Min.set_eq_fold [symmetric] del: set_simps)

lemma sort_eq_Nil: "sort_key k xs = [] \<longleftrightarrow> xs = []"
  by (metis length_sort length_0_conv)

lemma py_median_not_Inl: "xs \<noteq> [] \<Longrightarrow> py_median xs \<noteq> Inl e"
  by (simp add: py_median_def Let_def sort_eq_Nil)

lemma py_median_nonempty: "xs \<noteq> [] \<Longrightarrow> \<exists>m. py_median xs = Inr m"
  using py_median_not_Inl [of xs] by (cases "py_median xs") auto

lemma py_mean_nonempty: "xs \<noteq> [] \<Longrightarrow> py_mean xs = Inr (sum_list xs / real (length xs))"
  by (simp add: py_mean_def)

lemma those_all_Some:
  "\<forall>c\<in>set cs. g c \<noteq> None \<Longrightarrow> those (map g cs) = Some (map (\<lambda>c. the (g c)) cs)"
  by (simp add: those_map_Some)

lemma stat_of_Nil: "stat_of f [] = Inr None"
  by (simp add: stat_of_def)

lemma stat_of_Some:
  assumes "cs \<noteq> []" and "\<forall>c\<in>set cs. g c \<noteq> None" and "f (map (\<lambda>c. the (g c)) cs) = Inr v"
  shows "stat_of f (map g cs) = Inr (Some (py_round v 3))"
  using assms by (simp add: stat_of_def those_all_Some)

lemma hop_stats_of_empty:
  "hop_stats_of (h, acc_of []) =
     Inr \<lparr>s_avg = None, s_hop = h, s_hosts = [], s_max = None, s_med = None, s_min = None\<rparr>"
  by (simp add: hop_stats_of_def acc_of_def stat_of_Nil)

lemma hop_stats_of_data:
  assumes "cs \<noteq> []"
    and "\<forall>c\<in>set cs. avg c \<noteq> None \<and> maximum c \<noteq> None \<and> median c \<noteq> None \<and> minimum c \<noteq> None"
  shows "\<exists>md. py_median (map (\<lambda>c. the (median c)) cs) = Inr md \<and>
          hop_stats_of (h, acc_of cs) =
          Inr \<lparr>s_avg = Some (py_round (sum_list (map (\<lambda>c. the (avg c)) cs) / real (length cs)) 3),
               s_hop = h, s_hosts = map hosts cs,
               s_max = Some (py_round (Max (set (map (\<lambda>c. the (maximum c)) cs))) 3),
               s_med = Some (py_round md 3),
               s_min = Some (py_round (Min (set (map (\<lambda>c. the (minimum c)) cs))) 3)\<rparr>"
proof -
  obtain md where md: "py_median (map (\<lambda>c. the (median c)) cs) = Inr md"
    using py_median_nonempty [of "map (\<lambda>c. the (median c)) cs"] assms(1) by auto
  have a: "stat_of py_mean (map avg cs) =
      Inr (Some (py_round (sum_list (map (\<lambda>c. the (avg c)) cs) / real (length cs)) 3))"
    using assms by (intro stat_of_Some) (simp_all add: py_mean_nonempty)
  have b: "stat_of py_max (map maximum cs) =
      Inr (Some (py_round (Max (set (map (\<lambda>c. the (maximum c)) cs))) 3))"
    using assms by (intro stat_of_Some) (simp_all add: py_max_nonempty)
  have c: "stat_of py_median (map median cs) = Inr (Some (py_round md 3))"
    using assms md by (intro stat_of_Some) simp_all
  have d: "stat_of py_min (map minimum cs) =
      Inr (Some (py_round (Min (set (map (\<lambda>c. the (minimum c)) cs))) 3))"
    using assms by (intro stat_of_Some) (simp_all add: py_min_nonempty)
  show ?thesis using md a b c d by (simp add: hop_stats_of_def acc_of_def)
qed

lemma contrib_fields:
  assumes "\<forall>r\<in>set rs. all_or_none r"
  shows "\<forall>c\<in>set (contrib h rs). avg c \<noteq> None \<and> maximum c \<noteq> None \<and> median c \<noteq> None \<and> minimum c \<noteq> None"
  using assms by (auto simp: contrib_def all_or_none_def truthy_def)

lemma hop_stats_of_total:
  assumes "\<forall>r\<in>set rs. all_or_none r"
  shows "\<exists>s. hop_stats_of (h, acc_of (contrib h rs)) = Inr s"
proof (cases "contrib h rs = []")
  case True
  then show ?thesis by (simp add: hop_stats_of_empty)
next
  case False
  then show ?thesis
    using hop_stats_of_data [OF False contrib_fields [OF assms], of h] by blast
qed

lemma stats_total:
  assumes wf: "\<forall>r\<in>set (concat runs). all_or_none r"
    and num: "\<forall>r\<in>set (concat runs). py_int (hop r) \<noteq> None"
  shows "\<exists>res. get_statistics_per_hop runs = Inr res"
proof -
  have "\<exists>s. hop_stats_of e = Inr s" if "e \<in> set (group_by_hop runs)" for e
  proof -
    obtain h d where e: "e = (h, d)" by (cases e)
    then have "d = acc_of (contrib h (concat runs))"
      using group_by_hop_entry [of h d runs] that by simp
    then show ?thesis using hop_stats_of_total [OF wf, of h] e by simp
  qed
  then obtain stats where m: "map_err hop_stats_of (group_by_hop runs) = Inr stats"
    using map_err_total [of "group_by_hop runs" hop_stats_of] by blast
  have "py_int (s_hop x) \<noteq> None" if x: "x \<in> set stats" for x
  proof -
    obtain e where e: "e \<in> set (group_by_hop runs)" "hop_stats_of e = Inr x"
      using list_all2_in_set2 [OF map_err_Inr [OF m] x] by blast
    obtain h d where hd: "e = (h, d)" by (cases e)
    have "s_hop x = h" using hop_stats_of_hop [OF e(2)] hd by simp
    moreover have "h \<in> hop ` set (concat runs)"
      using group_by_hop_entry [of h d runs] e hd by simp
    ultimately show ?thesis using num by auto
  qed
  then show ?thesis
    using m sort_by_hop_Inr [of stats "sort_key hop_key stats"]
    by (simp add: get_statistics_per_hop_def)
qed

lemma round_half_even_of_int: "round_half_even (of_int k) = k"
  by (simp add: round_half_even_def)

lemma py_round_3_2: "py_round (py_round x 2) 3 = py_round x 2"
proof -
  have "py_round x 2 * 10 ^ 3 = of_int (10 * round_half_even (x * 10 ^ 2))"
    by (simp add: py_round_def)
  then have "round_half_even (py_round x 2 * 10 ^ 3) = 10 * round_half_even (x * 10 ^ 2)"
    using round_half_even_of_int by metis
  then show ?thesis
    by (simp add: py_round_def [of "py_round x 2" 3]) (simp add: py_round_def)
qed

lemma parse_hop_total:
  assumes "py_split line \<noteq> []"
  shows "\<exists>st'. parse_hop fl line st = Inr st'"
proof -
  have "\<exists>v. py_max ts = Inr v" "\<exists>v. py_median ts = Inr v" if "ts \<noteq> []" for ts
    using that py_max_nonempty py_median_nonempty by auto
  then show ?thesis
    using assms by (fastforce simp: parse_hop_def Let_def split: sum.splits)
qed

lemma parse_hop_cases:
  assumes "parse_hop fl line st = Inr st'"
  shows "fst st' = fst st \<or> (\<exists>r. fst st' = fst st @ [r] \<and> parsed_ok r)"
  using assms by (auto simp: parse_hop_def Let_def parsed_ok_def split: if_splits sum.splits)

lemma parse_hops_inv:
  assumes "parse_hops fl ls st = Inr st'" and "\<forall>r\<in>set (fst st). parsed_ok r"
  shows "\<forall>r\<in>set (fst st'). parsed_ok r"
  using assms
proof (induction ls arbitrary: st)
  case Nil
  then show ?case by simp
next
  case (Cons l ls)
  then obtain st1 where s: "parse_hop fl l st = Inr st1" "parse_hops fl ls st1 = Inr st'"
    by (auto split: sum.splits)
  have "\<forall>r\<in>set (fst st1). parsed_ok r"
    using parse_hop_cases [OF s(1)] Cons.prems(2) by auto
  then show ?case using Cons.IH s(2) by blast
qed

lemma parse_output_ok:
  assumes "parse_traceroute_output fl data lat = Inr (out, lat')" and "r \<in> set out"
  shows "parsed_ok r"
  using parse_hops_inv [of fl _ "([], lat)" "(out, lat')"] assms
  by (auto simp: parse_traceroute_output_def)

lemma those_length: "those vs = Some xs \<Longrightarrow> length xs = length vs"
  by (induction vs arbitrary: xs) (auto split: option.splits)

lemma stat_of_Inr:
  assumes "stat_of f vs = Inr v" and "vs \<noteq> []"
  shows "\<exists>xs y. those vs = Some xs \<and> xs \<noteq> [] \<and> f xs = Inr y \<and> v = Some (py_round y 3)"
proof -
  obtain xs where xs: "those vs = Some xs"
    using assms by (auto simp: stat_of_def split: option.splits)
  then have "xs \<noteq> []" using those_length [OF xs] assms(2) by auto
  then show ?thesis using assms xs by (auto simp: stat_of_def split: sum.splits)
qed

lemma hop_stats_of_Inr:
  assumes "hop_stats_of (h, d) = Inr s"
  shows "stat_of py_mean (a_avg d) = Inr (s_avg s) \<and> stat_of py_max (a_max d) = Inr (s_max s) \<and>
         stat_of py_median (a_med d) = Inr (s_med s) \<and> stat_of py_min (a_min d) = Inr (s_min s) \<and>
         s_hosts s = a_hosts d \<and> s_hop s = h"
  using assms by (auto simp: hop_stats_of_def split: sum.splits)

lemma contrib_no_zero:
  assumes "\<forall>r\<in>set rs. avg r \<noteq> Some 0"
  shows "contrib h rs = filter (\<lambda>r. hop r = h \<and> avg r \<noteq> None) rs"
  unfolding contrib_def
proof (rule filter_cong [OF refl])
  fix r assume "r \<in> set rs"
  then have "avg r \<noteq> Some 0" using assms by blast
  then show "(hop r = h \<and> truthy (avg r)) = (hop r = h \<and> avg r \<noteq> None)"
    by (cases "avg r") (auto simp: truthy_def)
qed

lemma acc_of_simps:
  "a_avg (acc_of cs) = map avg cs" "a_max (acc_of cs) = map maximum cs"
  "a_med (acc_of cs) = map median cs" "a_min (acc_of cs) = map minimum cs"
  "a_hosts (acc_of cs) = map hosts cs"
  by (simp_all add: acc_of_def)

lemma timeout_line_record:
  assumes "py_split line \<noteq> []" and "is_timeout (py_split line)"
  shows "parse_hop fl line st =
    Inr (fst st @ [\<lparr>avg = None, hop = py_split line ! 0, hosts = [], maximum = None,
                     median = None, minimum = None\<rparr>], snd st)"
  using assms by (simp add: parse_hop_def)

lemma filter_key_distinct:
  "distinct (map f xs) \<Longrightarrow> x \<in> set xs \<Longrightarrow> filter (\<lambda>y. f y = f x) xs = [x]"
proof (induction xs)
  case Nil
  then show ?case by simp
next
  case (Cons a xs)
  show ?case
  proof (cases "a = x")
    case True
    have "f x \<notin> f ` set xs" using Cons.prems(1) True by simp
    then have "\<forall>y\<in>set xs. f y \<noteq> f x" by (metis imageI)
    then show ?thesis using True by (simp add: filter_empty_conv)
  next
    case False
    then have "x \<in> set xs" using Cons.prems(2) by simp
    moreover have "f a \<notin> f ` set xs" using Cons.prems(1) by simp
    then have "f a \<noteq> f x" using \<open>x \<in> set xs\<close> by (metis imageI)
    ultimately show ?thesis using Cons by simp
  qed
qed

lemma py_median_pair: "py_median [m, m] = Inr m"
  by (simp add: py_median_def)

lemma first_token: "ps \<noteq> [] \<Longrightarrow> take (Suc 0) ps = [ps ! 0]"
  by (cases ps) auto

lemma parse_hop_origin:
  assumes "parse_hop fl l st = Inr st'"
  shows "set (fst st) \<subseteq> set (fst st') \<and>
         (is_timeout (py_split l) \<longrightarrow> (\<exists>r\<in>set (fst st'). take 1 (py_split l) = [hop r])) \<and>
         (\<forall>r\<in>set (fst st'). r \<in> set (fst st) \<or>
            (take 1 (py_split l) = [hop r] \<and> (is_timeout (py_split l) \<longrightarrow> avg r = None)))"
  using assms
  by (auto simp: parse_hop_def Let_def first_token split: if_splits sum.splits)

lemma parse_hops_origin:
  assumes "parse_hops fl ls st = Inr st'"
  shows "set (fst st) \<subseteq> set (fst st') \<and>
         (\<forall>l\<in>set ls. is_timeout (py_split l) \<longrightarrow>
            (\<exists>r\<in>set (fst st'). take 1 (py_split l) = [hop r])) \<and>
         (\<forall>r\<in>set (fst st'). r \<in> set (fst st) \<or>
            (\<exists>l\<in>set ls. take 1 (py_split l) = [hop r] \<and>
               (is_timeout (py_split l) \<longrightarrow> avg r = None)))"
  using assms
proof (induction ls arbitrary: st)
  case Nil
  then show ?case by auto
next
  case (Cons l ls)
  then obtain st1 where s: "parse_hop fl l st = Inr st1" "parse_hops fl ls st1 = Inr st'"
    by (auto split: sum.splits)
  note a = parse_hop_origin [OF s(1)]
  note b = Cons.IH [OF s(2)]
  have 1: "set (fst st) \<subseteq> set (fst st')" using a b by blast
  have 2: "\<exists>r\<in>set (fst st'). take 1 (py_split k) = [hop r]"
    if "k \<in> set (l # ls)" "is_timeout (py_split k)" for k
  proof (cases "k = l")
    case True
    then show ?thesis using a b that(2) by blast
  next
    case False
    then show ?thesis using b that by auto
  qed
  have 3: "r \<in> set (fst st) \<or>
      (\<exists>k\<in>set (l # ls). take 1 (py_split k) = [hop r] \<and>
         (is_timeout (py_split k) \<longrightarrow> avg r = None))"
    if r: "r \<in> set (fst st')" for r
  proof -
    from b r consider "r \<in> set (fst st1)"
      | "\<exists>k\<in>set ls. take 1 (py_split k) = [hop r] \<and> (is_timeout (py_split k) \<longrightarrow> avg r = None)"
      by blast
    then show ?thesis
    proof cases
      case 1
      then show ?thesis using a by auto
    next
      case 2
      then show ?thesis by auto
    qed
  qed
  show ?case using 1 2 3 by blast
qed

lemma parse_output_origin:
  assumes "parse_traceroute_output fl d lat = Inr (out, lat')"
  shows "(\<forall>l\<in>set (drop 1 (splitlines d)). is_timeout (py_split l) \<longrightarrow>
            (\<exists>r\<in>set out. take 1 (py_split l) = [hop r])) \<and>
         (\<forall>r\<in>set out. \<exists>l\<in>set (drop 1 (splitlines d)). take 1 (py_split l) = [hop r] \<and>
               (is_timeout (py_split l) \<longrightarrow> avg r = None))"
  using parse_hops_origin [of fl "drop 1 (splitlines d)" "([], lat)" "(out, lat')"] assms
  by (simp add: parse_traceroute_output_def)

lemma parse_runs_outputs:
  assumes "parse_runs fl ds st = Inr st'"
  shows "\<exists>outs. fst st' = fst st @ outs \<and>
           list_all2 (\<lambda>d out. \<exists>lat lat'. parse_traceroute_output fl d lat = Inr (out, lat')) ds outs"
  using assms
proof (induction ds arbitrary: st)
  case Nil
  then show ?case by auto
next
  case (Cons d ds)
  then obtain res where p: "parse_traceroute_output fl d (snd st) = Inr res"
    and q: "parse_runs fl ds (fst st @ [fst res], snd res) = Inr st'"
    by (auto split: sum.splits)
  obtain outs where o: "fst st' = (fst st @ [fst res]) @ outs"
    "list_all2 (\<lambda>d out. \<exists>lat lat'. parse_traceroute_output fl d lat = Inr (out, lat')) ds outs"
    using Cons.IH [OF q] by auto
  have "parse_traceroute_output fl d (snd st) = Inr (fst res, snd res)" using p by simp
  then have "list_all2 (\<lambda>d out. \<exists>lat lat'. parse_traceroute_output fl d lat = Inr (out, lat'))
      (d # ds) (fst res # outs)"
    using o(2) by blast
  then show ?case using o(1) by auto
qed

lemma use_test_directory_outputs:
  assumes "use_test_directory fl files = Inr (runs, lat)"
  shows "list_all2 (\<lambda>d out. \<exists>lat lat'. parse_traceroute_output fl d lat = Inr (out, lat')) files runs"
  using parse_runs_outputs [of fl files "([], [])" "(runs, lat)"] assms
  by (simp add: use_test_directory_def)

lemma list_all2_in_set1:
  "list_all2 P xs ys \<Longrightarrow> x \<in> set xs \<Longrightarrow> \<exists>y\<in>set ys. P x y"
  by (induction rule: list_all2_induct) auto

lemma timeout_hop_aggregate:
  assumes "\<forall>r\<in>set (concat runs). all_or_none r"
    and "\<forall>r\<in>set (concat runs). py_int (hop r) \<noteq> None"
    and "h \<in> hop ` set (concat runs)"
    and "\<forall>r\<in>set (concat runs). hop r = h \<longrightarrow> avg r = None"
  shows "\<exists>res. get_statistics_per_hop runs = Inr res \<and> (\<exists>s\<in>set res. s_hop s = h) \<and>
           (\<forall>s\<in>set res. s_hop s = h \<longrightarrow>
              s = \<lparr>s_avg = None, s_hop = h, s_hosts = [], s_max = None, s_med = None,
                    s_min = None\<rparr>)"
proof -
  obtain res where res: "get_statistics_per_hop runs = Inr res"
    using stats_total [OF assms(1,2)] by blast
  have "h \<in> set (map s_hop res)" using stats_hops [OF res] assms(3) by simp
  then have ex: "\<exists>s\<in>set res. s_hop s = h" by auto
  have "contrib h (concat runs) = []"
    using assms(4) by (auto simp: contrib_def filter_empty_conv truthy_def)
  then have "s = \<lparr>s_avg = None, s_hop = h, s_hosts = [], s_max = None, s_med = None,
                    s_min = None\<rparr>" if "s \<in> set res" "s_hop s = h" for s
    using stats_member [OF res that(1)] that(2) by (simp add: hop_stats_of_empty)
  then show ?thesis using res ex by blast
qed

text \<open>Rules for running the parser on concrete text.\<close>

lemma replicate3: "replicate 3 x = [x, x, x]"
  by (simp add: numeral_3_eq_3)

lemmas float_eval = dec_float_def is_digit_def digits_nat_def digit_val_def Let_def

lemmas scan_eval = scan_parts_def scan_step_def upt_conv_Cons Let_def

lemmas stat_eval = py_median_def py_round_def round_half_even_def Let_def

section \<open>C1: the minimum of a parsed record\<close>

text \<open>
  C1 says that the minimum field of a record with samples is the smallest sample, so that
  minimum \<le> median \<le> maximum. The parser computes \<open>minimum = max(times)\<close>: on the line
  of the scenario of the specification, with samples 1.234, 1.456 and 1.789, the record
  carries minimum 1.789, which is above the median 1.456 and is not the smallest sample 1.234.
\<close>

theorem minimum_is_second_maximum_example:
  "parse_traceroute_output dec_float
     (''traceroute to 10.0.0.9, 30 hops max'' @ [CHR 0x0A] @
      ''5  192.168.1.1 (192.168.1.1)  1.234 ms  1.456 ms  1.789 ms'') [] =
   Inr ([\<lparr>avg = Some 1.49, hop = ''5'', hosts = [(''192.168.1.1'', ''(192.168.1.1)'')],
        maximum = Some 1.789, median = Some 1.456, minimum = Some 1.789\<rparr>],
        [(''5'', [1.234, 1.456, 1.789])])"
proof -
  have sl: "splitlines (''traceroute to 10.0.0.9, 30 hops max'' @ [CHR 0x0A] @
      ''5  192.168.1.1 (192.168.1.1)  1.234 ms  1.456 ms  1.789 ms'') =
      [''traceroute to 10.0.0.9, 30 hops max'', ''5  192.168.1.1 (192.168.1.1)  1.234 ms  1.456 ms  1.789 ms'']"
    by code_simp
  have sp0: "py_split ''5  192.168.1.1 (192.168.1.1)  1.234 ms  1.456 ms  1.789 ms'' =
      [''5'', ''192.168.1.1'', ''(192.168.1.1)'', ''1.234'', ''ms'', ''1.456'', ''ms'', ''1.789'', ''ms'']"
    by code_simp
  have sc0: "scan_parts dec_float [''5'', ''192.168.1.1'', ''(192.168.1.1)'', ''1.234'', ''ms'', ''1.456'', ''ms'', ''1.789'', ''ms''] =
      ([1.234, 1.456, 1.789], [(''192.168.1.1'', ''(192.168.1.1)'')])"
    by (simp add: scan_eval float_eval)
  show ?thesis
    unfolding parse_traceroute_output_def sl
    by (simp add: sp0 sc0 parse_hop_def is_timeout_def stat_eval lat_get_def replicate3)
qed

section \<open>C2: a line without latency samples\<close>

lemma scan_line_without_samples:
  "scan_parts dec_float (py_split ''4  gw.example.net (10.0.0.1)'') =
     ([], [(''gw.example.net'', ''(10.0.0.1)'')])"
proof -
  have sp: "py_split ''4  gw.example.net (10.0.0.1)'' = [''4'', ''gw.example.net'', ''(10.0.0.1)'']"
    by code_simp
  show ?thesis
    unfolding sp by (simp add: scan_eval float_eval)
qed

lemma parse_line_without_samples:
  "parse_traceroute_output dec_float
     (''traceroute to 10.0.0.9, 30 hops max'' @ [CHR 0x0A] @
      ''4  gw.example.net (10.0.0.1)'') [] = Inr ([], [])"
proof -
  have sl: "splitlines (''traceroute to 10.0.0.9, 30 hops max'' @ [CHR 0x0A] @
      ''4  gw.example.net (10.0.0.1)'') =
      [''traceroute to 10.0.0.9, 30 hops max'', ''4  gw.example.net (10.0.0.1)'']"
    by code_simp
  have sp0: "py_split ''4  gw.example.net (10.0.0.1)'' =
      [''4'', ''gw.example.net'', ''(10.0.0.1)'']"
    by code_simp
  have sc0: "scan_parts dec_float [''4'', ''gw.example.net'', ''(10.0.0.1)''] =
      ([], [(''gw.example.net'', ''(10.0.0.1)'')])"
    by (simp add: scan_eval float_eval)
  show ?thesis
    unfolding parse_traceroute_output_def sl
    by (simp add: sp0 sc0 parse_hop_def is_timeout_def stat_eval lat_get_def replicate3)
qed

text \<open>
  C2, as stated, fails: a line that holds a hop index and a host with its address, but no
  latency, is scanned to one host pair and no sample, and the parser returns no record for
  it at all.
\<close>

theorem line_without_samples_dropped_example:
  "scan_parts dec_float (py_split ''4  gw.example.net (10.0.0.1)'') =
     ([], [(''gw.example.net'', ''(10.0.0.1)'')]) \<and>
   parse_traceroute_output dec_float
     (''traceroute to 10.0.0.9, 30 hops max'' @ [CHR 0x0A] @
      ''4  gw.example.net (10.0.0.1)'') [] = Inr ([], [])"
  using scan_line_without_samples parse_line_without_samples by (rule conjI)

text \<open>
  C2, amended: a line with at least one token that is not the timeout pattern and from which
  no latency sample is read emits no record. The output list and the latency map stay as
  they are, nothing is raised, and parsing goes on with the next line.
\<close>

theorem no_samples_line_skipped:
  assumes "py_split line \<noteq> []" and "\<not> is_timeout (py_split line)"
    and "fst (scan_parts fl (py_split line)) = []"
  shows "parse_hop fl line st = Inr st \<and>
         parse_hops fl (line # rest) st = parse_hops fl rest st"
  using assms by (simp add: parse_hop_def Let_def)

text \<open>
  C2, amended, at the line \<open>4  gw.example.net (10.0.0.1)\<close>.
\<close>

theorem no_samples_line_skipped_witness:
  "(py_split ''4  gw.example.net (10.0.0.1)'' \<noteq> []) \<and>
   (\<not> is_timeout (py_split ''4  gw.example.net (10.0.0.1)'')) \<and>
   (fst (scan_parts dec_float (py_split ''4  gw.example.net (10.0.0.1)'')) = []) \<and>
   (parse_hop dec_float ''4  gw.example.net (10.0.0.1)'' ([], []) = Inr ([], []) \<and>
    parse_hops dec_float [''4  gw.example.net (10.0.0.1)''] ([], []) = parse_hops dec_float [] ([], []))"
proof -
  have h1: "py_split ''4  gw.example.net (10.0.0.1)'' \<noteq> []"
    by code_simp
  have h2: "\<not> is_timeout (py_split ''4  gw.example.net (10.0.0.1)'')"
    by code_simp
  have h3: "fst (scan_parts dec_float (py_split ''4  gw.example.net (10.0.0.1)'')) = []"
    by (simp add: scan_line_without_samples)
  show ?thesis
    using h1 h2 h3 no_samples_line_skipped [OF h1 h2 h3, of "([], [])" "[]"]
    by blast
qed

section \<open>C3: the host list of an aggregate record\<close>

text \<open>
  C3, as stated, fails: \<open>hosts\<close> is extended with \<open>append(result.hosts)\<close>, so the
  aggregate holds one list of pairs per contributing record. One record with two host pairs
  gives a host list of length one, not two.
\<close>

theorem hosts_nested_per_record_example:
  "get_statistics_per_hop
     [[\<lparr>avg = Some 1.5, hop = ''1'', hosts = [(''a.example.net'', ''(10.0.0.1)''), (''b.example.net'', ''(10.0.0.2)'')],
        maximum = Some 2, median = Some 1.5, minimum = Some 2\<rparr>]] =
   Inr [\<lparr>s_avg = Some 1.5, s_hop = ''1'', s_hosts = [[(''a.example.net'', ''(10.0.0.1)''), (''b.example.net'', ''(10.0.0.2)'')]],
        s_max = Some 2, s_med = Some 1.5, s_min = Some 2\<rparr>]"
  by code_simp

text \<open>
  C3, amended: the host list of an aggregate record has one element per record of that hop
  with a non-null average, in run order and then line order, and that element is the
  record's own list of host pairs, neither flattened nor deduplicated. Records whose
  average is exactly zero are left aside here.
\<close>

theorem aggregate_hosts_one_list_per_record:
  assumes "get_statistics_per_hop runs = Inr res" and "s \<in> set res"
    and "\<forall>r\<in>set (concat runs). avg r \<noteq> Some 0"
  shows "s_hosts s = map hosts (filter (\<lambda>r. hop r = s_hop s \<and> avg r \<noteq> None) (concat runs))"
proof -
  have "hop_stats_of (s_hop s, acc_of (contrib (s_hop s) (concat runs))) = Inr s"
    using stats_member [OF assms(1,2)] by simp
  then have "s_hosts s = map hosts (contrib (s_hop s) (concat runs))"
    using hop_stats_of_Inr acc_of_simps(5) by metis
  then show ?thesis using contrib_no_zero [OF assms(3)] by simp
qed

text \<open>
  C3, amended, at two runs that both hold hop 1.
\<close>

theorem aggregate_hosts_one_list_per_record_witness:
  "(get_statistics_per_hop
     [[\<lparr>avg = Some 1.5, hop = ''1'', hosts = [(''a.example.net'', ''(10.0.0.1)''), (''b.example.net'', ''(10.0.0.2)'')],
        maximum = Some 2, median = Some 1.5, minimum = Some 2\<rparr>],
      [\<lparr>avg = Some 3, hop = ''1'', hosts = [(''a.example.net'', ''(10.0.0.1)'')],
        maximum = Some 3, median = Some 3, minimum = Some 3\<rparr>]] =
     Inr [\<lparr>s_avg = Some 2.25, s_hop = ''1'', s_hosts = [[(''a.example.net'', ''(10.0.0.1)''), (''b.example.net'', ''(10.0.0.2)'')], [(''a.example.net'', ''(10.0.0.1)'')]],
        s_max = Some 3, s_med = Some 2.25, s_min = Some 2\<rparr>]) \<and>
   (\<lparr>s_avg = Some 2.25, s_hop = ''1'', s_hosts = [[(''a.example.net'', ''(10.0.0.1)''), (''b.example.net'', ''(10.0.0.2)'')], [(''a.example.net'', ''(10.0.0.1)'')]],
        s_max = Some 3, s_med = Some 2.25, s_min = Some 2\<rparr> \<in> set [\<lparr>s_avg = Some 2.25, s_hop = ''1'', s_hosts = [[(''a.example.net'', ''(10.0.0.1)''), (''b.example.net'', ''(10.0.0.2)'')], [(''a.example.net'', ''(10.0.0.1)'')]],
        s_max = Some 3, s_med = Some 2.25, s_min = Some 2\<rparr>]) \<and>
   (s_hosts \<lparr>s_avg = Some 2.25, s_hop = ''1'', s_hosts = [[(''a.example.net'', ''(10.0.0.1)''), (''b.example.net'', ''(10.0.0.2)'')], [(''a.example.net'', ''(10.0.0.1)'')]],
        s_max = Some 3, s_med = Some 2.25, s_min = Some 2\<rparr> =
     map hosts (filter (\<lambda>r. hop r = s_hop \<lparr>s_avg = Some 2.25, s_hop = ''1'', s_hosts = [[(''a.example.net'', ''(10.0.0.1)''), (''b.example.net'', ''(10.0.0.2)'')], [(''a.example.net'', ''(10.0.0.1)'')]],
        s_max = Some 3, s_med = Some 2.25, s_min = Some 2\<rparr> \<and> avg r \<noteq> None)
       (concat [[\<lparr>avg = Some 1.5, hop = ''1'', hosts = [(''a.example.net'', ''(10.0.0.1)''), (''b.example.net'', ''(10.0.0.2)'')],
        maximum = Some 2, median = Some 1.5, minimum = Some 2\<rparr>],
      [\<lparr>avg = Some 3, hop = ''1'', hosts = [(''a.example.net'', ''(10.0.0.1)'')],
        maximum = Some 3, median = Some 3, minimum = Some 3\<rparr>]])))"
proof -
  have h1: "get_statistics_per_hop
     [[\<lparr>avg = Some 1.5, hop = ''1'', hosts = [(''a.example.net'', ''(10.0.0.1)''), (''b.example.net'', ''(10.0.0.2)'')],
        maximum = Some 2, median = Some 1.5, minimum = Some 2\<rparr>],
      [\<lparr>avg = Some 3, hop = ''1'', hosts = [(''a.example.net'', ''(10.0.0.1)'')],
        maximum = Some 3, median = Some 3, minimum = Some 3\<rparr>]] =
     Inr [\<lparr>s_avg = Some 2.25, s_hop = ''1'', s_hosts = [[(''a.example.net'', ''(10.0.0.1)''), (''b.example.net'', ''(10.0.0.2)'')], [(''a.example.net'', ''(10.0.0.1)'')]],
        s_max = Some 3, s_med = Some 2.25, s_min = Some 2\<rparr>]"
    by code_simp
  have h2: "\<lparr>s_avg = Some 2.25, s_hop = ''1'', s_hosts = [[(''a.example.net'', ''(10.0.0.1)''), (''b.example.net'', ''(10.0.0.2)'')], [(''a.example.net'', ''(10.0.0.1)'')]],
        s_max = Some 3, s_med = Some 2.25, s_min = Some 2\<rparr> \<in> set [\<lparr>s_avg = Some 2.25, s_hop = ''1'', s_hosts = [[(''a.example.net'', ''(10.0.0.1)''), (''b.example.net'', ''(10.0.0.2)'')], [(''a.example.net'', ''(10.0.0.1)'')]],
        s_max = Some 3, s_med = Some 2.25, s_min = Some 2\<rparr>]"
    by code_simp
  have h3: "\<forall>r\<in>set (concat [[\<lparr>avg = Some 1.5, hop = ''1'', hosts = [(''a.example.net'', ''(10.0.0.1)''), (''b.example.net'', ''(10.0.0.2)'')],
        maximum = Some 2, median = Some 1.5, minimum = Some 2\<rparr>],
      [\<lparr>avg = Some 3, hop = ''1'', hosts = [(''a.example.net'', ''(10.0.0.1)'')],
        maximum = Some 3, median = Some 3, minimum = Some 3\<rparr>]]). avg r \<noteq> Some 0"
    by code_simp
  show ?thesis
    using h1 h2 h3 aggregate_hosts_one_list_per_record [OF h1 h2 h3]
    by blast
qed

section \<open>C4: aggregate maximum and minimum\<close>

text \<open>
  C4, as stated, fails: maximum and minimum go through \<open>round(..., 3)\<close>. A single
  record with maximum and minimum 1.2346 gives the aggregate maximum and minimum 1.235.
\<close>

theorem aggregate_maximum_rounded_example:
  "get_statistics_per_hop
     [[\<lparr>avg = Some 1.23, hop = ''1'', hosts = [(''gw.example.net'', ''(10.0.0.1)'')],
        maximum = Some 1.2346, median = Some 1.2346, minimum = Some 1.2346\<rparr>]] =
   Inr [\<lparr>s_avg = Some 1.23, s_hop = ''1'', s_hosts = [[(''gw.example.net'', ''(10.0.0.1)'')]],
        s_max = Some 1.235, s_med = Some 1.235, s_min = Some 1.235\<rparr>]"
  by code_simp

text \<open>
  C4, amended: for a hop with at least one contributing record, the aggregate maximum is
  the maximum of the per-run maxima rounded to three decimal places, and the aggregate
  minimum is the minimum of the per-run minima rounded to three decimal places. Records
  whose average is exactly zero are left aside here.
\<close>

theorem aggregate_max_min_rounded:
  assumes "get_statistics_per_hop runs = Inr res" and "s \<in> set res"
    and "\<forall>r\<in>set (concat runs). avg r \<noteq> Some 0"
    and "cs = filter (\<lambda>r. hop r = s_hop s \<and> avg r \<noteq> None) (concat runs)" and "cs \<noteq> []"
  shows "\<exists>mxs mns. those (map maximum cs) = Some mxs \<and> those (map minimum cs) = Some mns \<and>
           s_max s = Some (py_round (Max (set mxs)) 3) \<and>
           s_min s = Some (py_round (Min (set mns)) 3)"
proof -
  have cs: "contrib (s_hop s) (concat runs) = cs"
    using contrib_no_zero [OF assms(3)] assms(4) by simp
  have "hop_stats_of (s_hop s, acc_of cs) = Inr s"
    using stats_member [OF assms(1,2)] cs by simp
  then have mx: "stat_of py_max (map maximum cs) = Inr (s_max s)"
    and mn: "stat_of py_min (map minimum cs) = Inr (s_min s)"
    using hop_stats_of_Inr [of "s_hop s" "acc_of cs" s] by (simp_all add: acc_of_simps)
  obtain mxs y where a: "those (map maximum cs) = Some mxs" "mxs \<noteq> []" "py_max mxs = Inr y"
      "s_max s = Some (py_round y 3)"
    using stat_of_Inr [OF mx] assms(5) by auto
  obtain mns z where b: "those (map minimum cs) = Some mns" "mns \<noteq> []" "py_min mns = Inr z"
      "s_min s = Some (py_round z 3)"
    using stat_of_Inr [OF mn] assms(5) by auto
  have "y = Max (set mxs)" "z = Min (set mns)"
    using a b py_max_nonempty [of mxs] py_min_nonempty [of mns] by simp_all
  then show ?thesis using a b by simp
qed

text \<open>
  C4, amended, at two runs that both hold hop 1.
\<close>

theorem aggregate_max_min_rounded_witness:
  "(get_statistics_per_hop
     [[\<lparr>avg = Some 1.23, hop = ''1'', hosts = [(''gw.example.net'', ''(10.0.0.1)'')],
        maximum = Some 1.2346, median = Some 1.2346, minimum = Some 1.2346\<rparr>],
      [\<lparr>avg = Some 2.5, hop = ''1'', hosts = [],
        maximum = Some 3.0004, median = Some 2.5, minimum = Some 3.0004\<rparr>]] =
     Inr [\<lparr>s_avg = Some 1.865, s_hop = ''1'', s_hosts = [[(''gw.example.net'', ''(10.0.0.1)'')], []],
        s_max = Some 3, s_med = Some 1.867, s_min = Some 1.235\<rparr>]) \<and>
   (\<lparr>s_avg = Some 1.865, s_hop = ''1'', s_hosts = [[(''gw.example.net'', ''(10.0.0.1)'')], []],
        s_max = Some 3, s_med = Some 1.867, s_min = Some 1.235\<rparr> \<in> set [\<lparr>s_avg = Some 1.865, s_hop = ''1'', s_hosts = [[(''gw.example.net'', ''(10.0.0.1)'')], []],
        s_max = Some 3, s_med = Some 1.867, s_min = Some 1.235\<rparr>]) \<and>
   ([\<lparr>avg = Some 1.23, hop = ''1'', hosts = [(''gw.example.net'', ''(10.0.0.1)'')],
        maximum = Some 1.2346, median = Some 1.2346, minimum = Some 1.2346\<rparr>,
      \<lparr>avg = Some 2.5, hop = ''1'', hosts = [],
        maximum = Some 3.0004, median = Some 2.5, minimum = Some 3.0004\<rparr>] =
     filter (\<lambda>r. hop r = s_hop \<lparr>s_avg = Some 1.865, s_hop = ''1'', s_hosts = [[(''gw.example.net'', ''(10.0.0.1)'')], []],
        s_max = Some 3, s_med = Some 1.867, s_min = Some 1.235\<rparr> \<and> avg r \<noteq> None)
       (concat [[\<lparr>avg = Some 1.23, hop = ''1'', hosts = [(''gw.example.net'', ''(10.0.0.1)'')],
        maximum = Some 1.2346, median = Some 1.2346, minimum = Some 1.2346\<rparr>],
      [\<lparr>avg = Some 2.5, hop = ''1'', hosts = [],
        maximum = Some 3.0004, median = Some 2.5, minimum = Some 3.0004\<rparr>]])) \<and>
   ([\<lparr>avg = Some 1.23, hop = ''1'', hosts = [(''gw.example.net'', ''(10.0.0.1)'')],
        maximum = Some 1.2346, median = Some 1.2346, minimum = Some 1.2346\<rparr>,
      \<lparr>avg = Some 2.5, hop = ''1'', hosts = [],
        maximum = Some 3.0004, median = Some 2.5, minimum = Some 3.0004\<rparr>] \<noteq> []) \<and>
   (\<exists>mxs mns. those (map maximum [\<lparr>avg = Some 1.23, hop = ''1'', hosts = [(''gw.example.net'', ''(10.0.0.1)'')],
        maximum = Some 1.2346, median = Some 1.2346, minimum = Some 1.2346\<rparr>,
      \<lparr>avg = Some 2.5, hop = ''1'', hosts = [],
        maximum = Some 3.0004, median = Some 2.5, minimum = Some 3.0004\<rparr>]) = Some mxs \<and>
      those (map minimum [\<lparr>avg = Some 1.23, hop = ''1'', hosts = [(''gw.example.net'', ''(10.0.0.1)'')],
        maximum = Some 1.2346, median = Some 1.2346, minimum = Some 1.2346\<rparr>,
      \<lparr>avg = Some 2.5, hop = ''1'', hosts = [],
        maximum = Some 3.0004, median = Some 2.5, minimum = Some 3.0004\<rparr>]) = Some mns \<and>
      s_max \<lparr>s_avg = Some 1.865, s_hop = ''1'', s_hosts = [[(''gw.example.net'', ''(10.0.0.1)'')], []],
        s_max = Some 3, s_med = Some 1.867, s_min = Some 1.235\<rparr> = Some (py_round (Max (set mxs)) 3) \<and>
      s_min \<lparr>s_avg = Some 1.865, s_hop = ''1'', s_hosts = [[(''gw.example.net'', ''(10.0.0.1)'')], []],
        s_max = Some 3, s_med = Some 1.867, s_min = Some 1.235\<rparr> = Some (py_round (Min (set mns)) 3))"
proof -
  have h1: "get_statistics_per_hop
     [[\<lparr>avg = Some 1.23, hop = ''1'', hosts = [(''gw.example.net'', ''(10.0.0.1)'')],
        maximum = Some 1.2346, median = Some 1.2346, minimum = Some 1.2346\<rparr>],
      [\<lparr>avg = Some 2.5, hop = ''1'', hosts = [],
        maximum = Some 3.0004, median = Some 2.5, minimum = Some 3.0004\<rparr>]] =
     Inr [\<lparr>s_avg = Some 1.865, s_hop = ''1'', s_hosts = [[(''gw.example.net'', ''(10.0.0.1)'')], []],
        s_max = Some 3, s_med = Some 1.867, s_min = Some 1.235\<rparr>]"
    by code_simp
  have h2: "\<lparr>s_avg = Some 1.865, s_hop = ''1'', s_hosts = [[(''gw.example.net'', ''(10.0.0.1)'')], []],
        s_max = Some 3, s_med = Some 1.867, s_min = Some 1.235\<rparr> \<in> set [\<lparr>s_avg = Some 1.865, s_hop = ''1'', s_hosts = [[(''gw.example.net'', ''(10.0.0.1)'')], []],
        s_max = Some 3, s_med = Some 1.867, s_min = Some 1.235\<rparr>]"
    by code_simp
  have h3: "\<forall>r\<in>set (concat [[\<lparr>avg = Some 1.23, hop = ''1'', hosts = [(''gw.example.net'', ''(10.0.0.1)'')],
        maximum = Some 1.2346, median = Some 1.2346, minimum = Some 1.2346\<rparr>],
      [\<lparr>avg = Some 2.5, hop = ''1'', hosts = [],
        maximum = Some 3.0004, median = Some 2.5, minimum = Some 3.0004\<rparr>]]). avg r \<noteq> Some 0"
    by code_simp
  have h4: "[\<lparr>avg = Some 1.23, hop = ''1'', hosts = [(''gw.example.net'', ''(10.0.0.1)'')],
        maximum = Some 1.2346, median = Some 1.2346, minimum = Some 1.2346\<rparr>,
      \<lparr>avg = Some 2.5, hop = ''1'', hosts = [],
        maximum = Some 3.0004, median = Some 2.5, minimum = Some 3.0004\<rparr>] =
     filter (\<lambda>r. hop r = s_hop \<lparr>s_avg = Some 1.865, s_hop = ''1'', s_hosts = [[(''gw.example.net'', ''(10.0.0.1)'')], []],
        s_max = Some 3, s_med = Some 1.867, s_min = Some 1.235\<rparr> \<and> avg r \<noteq> None)
       (concat [[\<lparr>avg = Some 1.23, hop = ''1'', hosts = [(''gw.example.net'', ''(10.0.0.1)'')],
        maximum = Some 1.2346, median = Some 1.2346, minimum = Some 1.2346\<rparr>],
      [\<lparr>avg = Some 2.5, hop = ''1'', hosts = [],
        maximum = Some 3.0004, median = Some 2.5, minimum = Some 3.0004\<rparr>]])"
    by code_simp
  have h5: "[\<lparr>avg = Some 1.23, hop = ''1'', hosts = [(''gw.example.net'', ''(10.0.0.1)'')],
        maximum = Some 1.2346, median = Some 1.2346, minimum = Some 1.2346\<rparr>,
      \<lparr>avg = Some 2.5, hop = ''1'', hosts = [],
        maximum = Some 3.0004, median = Some 2.5, minimum = Some 3.0004\<rparr>] \<noteq> []"
    by code_simp
  show ?thesis
    using h1 h2 h3 h4 h5 aggregate_max_min_rounded [OF h1 h2 h3 h4 h5]
    by blast
qed

section \<open>C5: which records contribute\<close>

lemma parse_zero_average:
  "parse_traceroute_output dec_float
     (''traceroute to 10.0.0.9, 30 hops max'' @ [CHR 0x0A] @
      ''1  localhost (127.0.0.1)  0.003 ms  0.002 ms  0.001 ms'') [] =
   Inr ([\<lparr>avg = Some 0, hop = ''1'', hosts = [(''localhost'', ''(127.0.0.1)'')],
        maximum = Some 0.003, median = Some 0.002, minimum = Some 0.003\<rparr>],
        [(''1'', [0.003, 0.002, 0.001])])"
proof -
  have sl: "splitlines (''traceroute to 10.0.0.9, 30 hops max'' @ [CHR 0x0A] @
      ''1  localhost (127.0.0.1)  0.003 ms  0.002 ms  0.001 ms'') =
      [''traceroute to 10.0.0.9, 30 hops max'', ''1  localhost (127.0.0.1)  0.003 ms  0.002 ms  0.001 ms'']"
    by code_simp
  have sp0: "py_split ''1  localhost (127.0.0.1)  0.003 ms  0.002 ms  0.001 ms'' =
      [''1'', ''localhost'', ''(127.0.0.1)'', ''0.003'', ''ms'', ''0.002'', ''ms'', ''0.001'', ''ms'']"
    by code_simp
  have sc0: "scan_parts dec_float [''1'', ''localhost'', ''(127.0.0.1)'', ''0.003'', ''ms'', ''0.002'', ''ms'', ''0.001'', ''ms''] =
      ([0.003, 0.002, 0.001], [(''localhost'', ''(127.0.0.1)'')])"
    by (simp add: scan_eval float_eval)
  show ?thesis
    unfolding parse_traceroute_output_def sl
    by (simp add: sp0 sc0 parse_hop_def is_timeout_def stat_eval lat_get_def replicate3)
qed

lemma aggregate_zero_average:
  "get_statistics_per_hop
     [[\<lparr>avg = Some 0, hop = ''1'', hosts = [(''localhost'', ''(127.0.0.1)'')],
        maximum = Some 0.003, median = Some 0.002, minimum = Some 0.003\<rparr>]] =
   Inr [\<lparr>s_avg = None, s_hop = ''1'', s_hosts = [],
        s_max = None, s_med = None, s_min = None\<rparr>]"
  by code_simp

text \<open>
  C5 says that a record with non-null numeric fields contributes them even when its average
  is exactly 0.0. The aggregator tests \<open>if result.avg\<close>, which is false for 0.0 as well as
  for \<open>None\<close>: three probes of 0.003, 0.002 and 0.001 ms average to 0.0 after rounding to
  two places, and the hop is aggregated as if it had no data and no host.
\<close>

theorem zero_average_record_ignored_example:
  "parse_traceroute_output dec_float
     (''traceroute to 10.0.0.9, 30 hops max'' @ [CHR 0x0A] @
      ''1  localhost (127.0.0.1)  0.003 ms  0.002 ms  0.001 ms'') [] =
   Inr ([\<lparr>avg = Some 0, hop = ''1'', hosts = [(''localhost'', ''(127.0.0.1)'')],
        maximum = Some 0.003, median = Some 0.002, minimum = Some 0.003\<rparr>],
        [(''1'', [0.003, 0.002, 0.001])]) \<and>
   get_statistics_per_hop
     [[\<lparr>avg = Some 0, hop = ''1'', hosts = [(''localhost'', ''(127.0.0.1)'')],
        maximum = Some 0.003, median = Some 0.002, minimum = Some 0.003\<rparr>]] =
   Inr [\<lparr>s_avg = None, s_hop = ''1'', s_hosts = [],
        s_max = None, s_med = None, s_min = None\<rparr>]"
  using parse_zero_average aggregate_zero_average by (rule conjI)

section \<open>C6: a hop that always times out\<close>

lemma parse_two_stars:
  "parse_traceroute_output dec_float
     (''traceroute to 10.0.0.9, 30 hops max'' @ [CHR 0x0A] @
      ''2  * *'') [] = Inr ([], [])"
proof -
  have sl: "splitlines (''traceroute to 10.0.0.9, 30 hops max'' @ [CHR 0x0A] @
      ''2  * *'') =
      [''traceroute to 10.0.0.9, 30 hops max'', ''2  * *'']"
    by code_simp
  have sp0: "py_split ''2  * *'' =
      [''2'', ''*'', ''*'']"
    by code_simp
  have sc0: "scan_parts dec_float [''2'', ''*'', ''*''] =
      ([], [])"
    by (simp add: scan_eval float_eval)
  show ?thesis
    unfolding parse_traceroute_output_def sl
    by (simp add: sp0 sc0 parse_hop_def is_timeout_def stat_eval lat_get_def replicate3)
qed

lemma run_two_stars:
  "use_test_directory dec_float
     [(''traceroute to 10.0.0.9, 30 hops max'' @ [CHR 0x0A] @
      ''2  * *'')] = Inr ([[]], [])"
  unfolding use_test_directory_def parse_runs.simps sum.case fst_conv snd_conv append_Nil parse_two_stars
  by simp

lemma aggregate_no_record:
  "get_statistics_per_hop [[]] = Inr []"
  by code_simp

text \<open>
  C6, as stated, fails: the parser knows a timed-out hop by the three tokens after the hop
  index being \<open>*\<close>. A capture taken with two probes per hop has the line
  \<open>2  * *\<close> for a hop whose probes all timed out; that line is not the pattern and has no
  sample, the parser emits no record for it, and hop 2 is absent from the aggregate.
\<close>

theorem two_probe_timeout_dropped_example:
  "use_test_directory dec_float
     [(''traceroute to 10.0.0.9, 30 hops max'' @ [CHR 0x0A] @
      ''2  * *'')] = Inr ([[]], []) \<and>
   get_statistics_per_hop [[]] = Inr []"
  using run_two_stars aggregate_no_record by (rule conjI)

lemma parse_answer_and_timeout:
  "parse_traceroute_output dec_float
     (''traceroute to 10.0.0.9, 30 hops max'' @ [CHR 0x0A] @
      ''1  gw.example.net (10.0.0.1)  1.5 ms  1.5 ms  1.5 ms'' @ [CHR 0x0A] @
      ''2  * * *'') [] =
   Inr ([\<lparr>avg = Some 1.5, hop = ''1'', hosts = [(''gw.example.net'', ''(10.0.0.1)'')],
        maximum = Some 1.5, median = Some 1.5, minimum = Some 1.5\<rparr>,
         \<lparr>avg = None, hop = ''2'', hosts = [],
        maximum = None, median = None, minimum = None\<rparr>],
        [(''1'', [1.5, 1.5, 1.5])])"
proof -
  have sl: "splitlines (''traceroute to 10.0.0.9, 30 hops max'' @ [CHR 0x0A] @
      ''1  gw.example.net (10.0.0.1)  1.5 ms  1.5 ms  1.5 ms'' @ [CHR 0x0A] @
      ''2  * * *'') =
      [''traceroute to 10.0.0.9, 30 hops max'', ''1  gw.example.net (10.0.0.1)  1.5 ms  1.5 ms  1.5 ms'', ''2  * * *'']"
    by code_simp
  have sp0: "py_split ''1  gw.example.net (10.0.0.1)  1.5 ms  1.5 ms  1.5 ms'' =
      [''1'', ''gw.example.net'', ''(10.0.0.1)'', ''1.5'', ''ms'', ''1.5'', ''ms'', ''1.5'', ''ms'']"
    by code_simp
  have sc0: "scan_parts dec_float [''1'', ''gw.example.net'', ''(10.0.0.1)'', ''1.5'', ''ms'', ''1.5'', ''ms'', ''1.5'', ''ms''] =
      ([1.5, 1.5, 1.5], [(''gw.example.net'', ''(10.0.0.1)'')])"
    by (simp add: scan_eval float_eval)
  have sp1: "py_split ''2  * * *'' =
      [''2'', ''*'', ''*'', ''*'']"
    by code_simp
  show ?thesis
    unfolding parse_traceroute_output_def sl
    by (simp add: sp0 sc0 sp1 parse_hop_def is_timeout_def stat_eval lat_get_def replicate3)
qed

lemma parse_timeout_only:
  "parse_traceroute_output dec_float
     (''traceroute to 10.0.0.9, 30 hops max'' @ [CHR 0x0A] @
      ''2  * * *'')
     [(''1'', [1.5, 1.5, 1.5])] =
   Inr ([\<lparr>avg = None, hop = ''2'', hosts = [],
        maximum = None, median = None, minimum = None\<rparr>],
        [(''1'', [1.5, 1.5, 1.5])])"
proof -
  have sl: "splitlines (''traceroute to 10.0.0.9, 30 hops max'' @ [CHR 0x0A] @
      ''2  * * *'') =
      [''traceroute to 10.0.0.9, 30 hops max'', ''2  * * *'']"
    by code_simp
  have sp0: "py_split ''2  * * *'' =
      [''2'', ''*'', ''*'', ''*'']"
    by code_simp
  show ?thesis
    unfolding parse_traceroute_output_def sl
    by (simp add: sp0 parse_hop_def is_timeout_def stat_eval lat_get_def replicate3)
qed

lemma run_answer_and_timeout:
  "use_test_directory dec_float
     [(''traceroute to 10.0.0.9, 30 hops max'' @ [CHR 0x0A] @
      ''1  gw.example.net (10.0.0.1)  1.5 ms  1.5 ms  1.5 ms'' @ [CHR 0x0A] @
      ''2  * * *''),
      (''traceroute to 10.0.0.9, 30 hops max'' @ [CHR 0x0A] @
      ''2  * * *'')] =
   Inr ([[\<lparr>avg = Some 1.5, hop = ''1'', hosts = [(''gw.example.net'', ''(10.0.0.1)'')],
        maximum = Some 1.5, median = Some 1.5, minimum = Some 1.5\<rparr>,
       \<lparr>avg = None, hop = ''2'', hosts = [],
        maximum = None, median = None, minimum = None\<rparr>],
      [\<lparr>avg = None, hop = ''2'', hosts = [],
        maximum = None, median = None, minimum = None\<rparr>]],
        [(''1'', [1.5, 1.5, 1.5])])"
  unfolding use_test_directory_def parse_runs.simps sum.case fst_conv snd_conv append_Nil
    parse_answer_and_timeout parse_timeout_only
  by simp

text \<open>
  C6, amended: let the files of a test directory be parsed into runs without error, with
  integer hop indices in the records. If some line after a header has the hop index
  \<open>h\<close>, and every such line of every file is the timeout pattern (the three tokens after
  the hop index are \<open>*\<close>), then the aggregate of the runs is returned, has a record for
  \<open>h\<close>, and that record has an empty host list and four null numeric fields.
\<close>

theorem timeout_hop_kept_in_aggregate:
  assumes "use_test_directory fl files = Inr (cumulative_data, lat)"
    and "\<forall>r\<in>set (concat cumulative_data). py_int (hop r) \<noteq> None"
    and "\<exists>d\<in>set files. \<exists>l\<in>set (drop 1 (splitlines d)). take 1 (py_split l) = [h]"
    and "\<forall>d\<in>set files. \<forall>l\<in>set (drop 1 (splitlines d)).
           take 1 (py_split l) = [h] \<longrightarrow> is_timeout (py_split l)"
  shows "\<exists>res. get_statistics_per_hop cumulative_data = Inr res \<and>
           (\<exists>s\<in>set res. s_hop s = h) \<and>
           (\<forall>s\<in>set res. s_hop s = h \<longrightarrow>
              s = \<lparr>s_avg = None, s_hop = h, s_hosts = [], s_max = None, s_med = None,
                    s_min = None\<rparr>)"
proof -
  let ?P = "\<lambda>d out. \<exists>lat lat'. parse_traceroute_output fl d lat = Inr (out, lat')"
  have la: "list_all2 ?P files cumulative_data"
    using use_test_directory_outputs [OF assms(1)] .
  have src: "\<exists>d\<in>set files. \<exists>out\<in>set cumulative_data. r \<in> set out \<and> ?P d out"
    if r: "r \<in> set (concat cumulative_data)" for r
  proof -
    obtain out where out: "out \<in> set cumulative_data" "r \<in> set out" using r by auto
    then obtain d where "d \<in> set files" "?P d out"
      using list_all2_in_set2 [OF la out(1)] by blast
    then show ?thesis using out by blast
  qed
  have wf: "\<forall>r\<in>set (concat cumulative_data). all_or_none r"
  proof
    fix r assume "r \<in> set (concat cumulative_data)"
    then obtain d out l l' where "r \<in> set out" "parse_traceroute_output fl d l = Inr (out, l')"
      using src by blast
    then have "parsed_ok r" by (rule parse_output_ok [rotated])
    then show "all_or_none r" by (auto simp: parsed_ok_def all_or_none_def)
  qed
  have occurs: "h \<in> hop ` set (concat cumulative_data)"
  proof -
    obtain d l where d: "d \<in> set files" "l \<in> set (drop 1 (splitlines d))"
        "take 1 (py_split l) = [h]"
      using assms(3) by blast
    then have t: "is_timeout (py_split l)" using assms(4) by blast
    obtain out l0 l1 where out: "out \<in> set cumulative_data"
        "parse_traceroute_output fl d l0 = Inr (out, l1)"
      using list_all2_in_set1 [OF la d(1)] by blast
    obtain r where "r \<in> set out" "take 1 (py_split l) = [hop r]"
      using parse_output_origin [OF out(2)] d(2) t by blast
    then have "r \<in> set (concat cumulative_data)" "hop r = h" using out(1) d(3) by auto
    then show ?thesis by blast
  qed
  have nulls: "\<forall>r\<in>set (concat cumulative_data). hop r = h \<longrightarrow> avg r = None"
  proof (intro ballI impI)
    fix r assume r: "r \<in> set (concat cumulative_data)" "hop r = h"
    obtain d out l0 l1 where d: "d \<in> set files" "r \<in> set out"
        "parse_traceroute_output fl d l0 = Inr (out, l1)"
      using src [OF r(1)] by blast
    obtain l where l: "l \<in> set (drop 1 (splitlines d))" "take 1 (py_split l) = [hop r]"
        "is_timeout (py_split l) \<longrightarrow> avg r = None"
      using parse_output_origin [OF d(3)] d(2) by blast
    have "is_timeout (py_split l)" using assms(4) d(1) l(1,2) r(2) by auto
    then show "avg r = None" using l(3) by simp
  qed
  show ?thesis using timeout_hop_aggregate [OF wf assms(2) occurs nulls] .
qed

text \<open>
  C6, amended, at two files in which hop 2 times out both times and hop 1 answers once.
\<close>

theorem timeout_hop_kept_in_aggregate_witness:
  "(use_test_directory dec_float
     [(''traceroute to 10.0.0.9, 30 hops max'' @ [CHR 0x0A] @
      ''1  gw.example.net (10.0.0.1)  1.5 ms  1.5 ms  1.5 ms'' @ [CHR 0x0A] @
      ''2  * * *''),
      (''traceroute to 10.0.0.9, 30 hops max'' @ [CHR 0x0A] @
      ''2  * * *'')] =
   Inr ([[\<lparr>avg = Some 1.5, hop = ''1'', hosts = [(''gw.example.net'', ''(10.0.0.1)'')],
        maximum = Some 1.5, median = Some 1.5, minimum = Some 1.5\<rparr>,
       \<lparr>avg = None, hop = ''2'', hosts = [],
        maximum = None, median = None, minimum = None\<rparr>],
      [\<lparr>avg = None, hop = ''2'', hosts = [],
        maximum = None, median = None, minimum = None\<rparr>]],
        [(''1'', [1.5, 1.5, 1.5])])) \<and>
   (\<exists>d\<in>set [(''traceroute to 10.0.0.9, 30 hops max'' @ [CHR 0x0A] @
      ''1  gw.example.net (10.0.0.1)  1.5 ms  1.5 ms  1.5 ms'' @ [CHR 0x0A] @
      ''2  * * *''),
      (''traceroute to 10.0.0.9, 30 hops max'' @ [CHR 0x0A] @
      ''2  * * *'')].
      \<exists>l\<in>set (drop 1 (splitlines d)). take 1 (py_split l) = [''2'']) \<and>
   (\<exists>res. get_statistics_per_hop [[\<lparr>avg = Some 1.5, hop = ''1'', hosts = [(''gw.example.net'', ''(10.0.0.1)'')],
        maximum = Some 1.5, median = Some 1.5, minimum = Some 1.5\<rparr>,
       \<lparr>avg = None, hop = ''2'', hosts = [],
        maximum = None, median = None, minimum = None\<rparr>],
      [\<lparr>avg = None, hop = ''2'', hosts = [],
        maximum = None, median = None, minimum = None\<rparr>]] = Inr res \<and>
      (\<exists>s\<in>set res. s_hop s = ''2'') \<and>
      (\<forall>s\<in>set res. s_hop s = ''2'' \<longrightarrow> s = \<lparr>s_avg = None, s_hop = ''2'', s_hosts = [],
        s_max = None, s_med = None, s_min = None\<rparr>))"
proof -
  have h1: "use_test_directory dec_float
     [(''traceroute to 10.0.0.9, 30 hops max'' @ [CHR 0x0A] @
      ''1  gw.example.net (10.0.0.1)  1.5 ms  1.5 ms  1.5 ms'' @ [CHR 0x0A] @
      ''2  * * *''),
      (''traceroute to 10.0.0.9, 30 hops max'' @ [CHR 0x0A] @
      ''2  * * *'')] =
   Inr ([[\<lparr>avg = Some 1.5, hop = ''1'', hosts = [(''gw.example.net'', ''(10.0.0.1)'')],
        maximum = Some 1.5, median = Some 1.5, minimum = Some 1.5\<rparr>,
       \<lparr>avg = None, hop = ''2'', hosts = [],
        maximum = None, median = None, minimum = None\<rparr>],
      [\<lparr>avg = None, hop = ''2'', hosts = [],
        maximum = None, median = None, minimum = None\<rparr>]],
        [(''1'', [1.5, 1.5, 1.5])])"
    by (rule run_answer_and_timeout)
  have h2: "\<forall>r\<in>set (concat [[\<lparr>avg = Some 1.5, hop = ''1'', hosts = [(''gw.example.net'', ''(10.0.0.1)'')],
        maximum = Some 1.5, median = Some 1.5, minimum = Some 1.5\<rparr>,
       \<lparr>avg = None, hop = ''2'', hosts = [],
        maximum = None, median = None, minimum = None\<rparr>],
      [\<lparr>avg = None, hop = ''2'', hosts = [],
        maximum = None, median = None, minimum = None\<rparr>]]). py_int (hop r) \<noteq> None"
    by code_simp
  have h3: "\<exists>d\<in>set [(''traceroute to 10.0.0.9, 30 hops max'' @ [CHR 0x0A] @
      ''1  gw.example.net (10.0.0.1)  1.5 ms  1.5 ms  1.5 ms'' @ [CHR 0x0A] @
      ''2  * * *''),
      (''traceroute to 10.0.0.9, 30 hops max'' @ [CHR 0x0A] @
      ''2  * * *'')].
      \<exists>l\<in>set (drop 1 (splitlines d)). take 1 (py_split l) = [''2'']"
    by code_simp
  have h4: "\<forall>d\<in>set [(''traceroute to 10.0.0.9, 30 hops max'' @ [CHR 0x0A] @
      ''1  gw.example.net (10.0.0.1)  1.5 ms  1.5 ms  1.5 ms'' @ [CHR 0x0A] @
      ''2  * * *''),
      (''traceroute to 10.0.0.9, 30 hops max'' @ [CHR 0x0A] @
      ''2  * * *'')].
      \<forall>l\<in>set (drop 1 (splitlines d)).
        take 1 (py_split l) = [''2''] \<longrightarrow> is_timeout (py_split l)"
    by code_simp
  show ?thesis
    using h1 h2 h3 h4 timeout_hop_kept_in_aggregate [OF h1 h2 h3 h4]
    by blast
qed

section \<open>C7: the order of the aggregate sequence\<close>

text \<open>
  C7, as stated, fails: records are grouped by the hop string and sorted by its integer
  value. The hop strings \<open>1\<close> and \<open>01\<close> are two groups with the same key 1, so the
  result is not strictly ascending.
\<close>

theorem equal_numeric_hops_example:
  "py_int ''1'' = Some 1 \<and> py_int ''01'' = Some 1 \<and>
   get_statistics_per_hop
     [[\<lparr>avg = Some 1.5, hop = ''1'', hosts = [],
        maximum = Some 1.5, median = Some 1.5, minimum = Some 1.5\<rparr>,
       \<lparr>avg = Some 2.5, hop = ''01'', hosts = [],
        maximum = Some 2.5, median = Some 2.5, minimum = Some 2.5\<rparr>]] =
   Inr [\<lparr>s_avg = Some 1.5, s_hop = ''1'', s_hosts = [[]],
        s_max = Some 1.5, s_med = Some 1.5, s_min = Some 1.5\<rparr>,
        \<lparr>s_avg = Some 2.5, s_hop = ''01'', s_hosts = [[]],
        s_max = Some 2.5, s_med = Some 2.5, s_min = Some 2.5\<rparr>]"
  by code_simp

text \<open>
  C7, amended: for runs whose records have integer hop indices and numeric fields that are
  all null or all non-null, the function returns a sequence that is sorted ascending by the
  integer value of the hop index, whatever the input order; the order is strict when
  different hop strings of the input have different integer values.
\<close>

theorem aggregate_sorted_by_numeric_hop:
  assumes "\<forall>r\<in>set (concat runs). all_or_none r"
    and "\<forall>r\<in>set (concat runs). py_int (hop r) \<noteq> None"
  shows "\<exists>res ks. get_statistics_per_hop runs = Inr res \<and>
           map (\<lambda>s. py_int (s_hop s)) res = map Some ks \<and> sorted ks \<and>
           (inj_on py_int (hop ` set (concat runs)) \<longrightarrow> sorted_wrt (<) ks)"
proof -
  obtain res where res: "get_statistics_per_hop runs = Inr res"
    using stats_total [OF assms] by blast
  let ?ks = "map hop_key res"
  have some: "\<forall>s\<in>set res. py_int (s_hop s) \<noteq> None" and sorted: "sorted ?ks"
    using stats_sorted [OF res] by simp_all
  have m: "map (\<lambda>s. py_int (s_hop s)) res = map Some ?ks"
    using some by (auto simp: hop_key_def)
  have "distinct ?ks" if inj: "inj_on py_int (hop ` set (concat runs))"
  proof -
    have "distinct (map s_hop res)" "set (map s_hop res) = hop ` set (concat runs)"
      using stats_hops [OF res] by simp_all
    then have "distinct (map py_int (map s_hop res))"
      using inj by (simp add: distinct_map del: map_map)
    then have "distinct (map Some ?ks)" using m by (simp add: o_def)
    then show ?thesis by (simp add: distinct_map del: map_map)
  qed
  then have "inj_on py_int (hop ` set (concat runs)) \<longrightarrow> sorted_wrt (<) ?ks"
    using sorted by (simp add: strict_sorted_iff)
  then show ?thesis using res m sorted by blast
qed

text \<open>
  C7, amended, at a run that lists hop 10 before hop 2.
\<close>

theorem aggregate_sorted_by_numeric_hop_witness:
  "(\<exists>res ks. get_statistics_per_hop [[\<lparr>avg = Some 2.5, hop = ''10'', hosts = [],
        maximum = Some 2.5, median = Some 2.5, minimum = Some 2.5\<rparr>,
       \<lparr>avg = Some 1.5, hop = ''2'', hosts = [],
        maximum = Some 1.5, median = Some 1.5, minimum = Some 1.5\<rparr>]] = Inr res \<and>
      map (\<lambda>s. py_int (s_hop s)) res = map Some ks \<and> sorted ks \<and>
      (inj_on py_int (hop ` set (concat [[\<lparr>avg = Some 2.5, hop = ''10'', hosts = [],
        maximum = Some 2.5, median = Some 2.5, minimum = Some 2.5\<rparr>,
       \<lparr>avg = Some 1.5, hop = ''2'', hosts = [],
        maximum = Some 1.5, median = Some 1.5, minimum = Some 1.5\<rparr>]])) \<longrightarrow> sorted_wrt (<) ks))"
proof -
  have h1: "\<forall>r\<in>set (concat [[\<lparr>avg = Some 2.5, hop = ''10'', hosts = [],
        maximum = Some 2.5, median = Some 2.5, minimum = Some 2.5\<rparr>,
       \<lparr>avg = Some 1.5, hop = ''2'', hosts = [],
        maximum = Some 1.5, median = Some 1.5, minimum = Some 1.5\<rparr>]]). all_or_none r"
    by code_simp
  have h2: "\<forall>r\<in>set (concat [[\<lparr>avg = Some 2.5, hop = ''10'', hosts = [],
        maximum = Some 2.5, median = Some 2.5, minimum = Some 2.5\<rparr>,
       \<lparr>avg = Some 1.5, hop = ''2'', hosts = [],
        maximum = Some 1.5, median = Some 1.5, minimum = Some 1.5\<rparr>]]). py_int (hop r) \<noteq> None"
    by code_simp
  show ?thesis
    using h1 h2 aggregate_sorted_by_numeric_hop [OF h1 h2]
    by blast
qed

section \<open>C8: the same run aggregated twice\<close>

lemma parse_two_probes:
  "parse_traceroute_output dec_float
     (''traceroute to 10.0.0.9, 30 hops max'' @ [CHR 0x0A] @
      ''1  gw.example.net (10.0.0.1)  1.233 ms * 1.234 ms'') [] =
   Inr ([\<lparr>avg = Some 1.23, hop = ''1'', hosts = [(''gw.example.net'', ''(10.0.0.1)'')],
        maximum = Some 1.234, median = Some 1.2335, minimum = Some 1.234\<rparr>],
        [(''1'', [1.233, 1.234])])"
proof -
  have sl: "splitlines (''traceroute to 10.0.0.9, 30 hops max'' @ [CHR 0x0A] @
      ''1  gw.example.net (10.0.0.1)  1.233 ms * 1.234 ms'') =
      [''traceroute to 10.0.0.9, 30 hops max'', ''1  gw.example.net (10.0.0.1)  1.233 ms * 1.234 ms'']"
    by code_simp
  have sp0: "py_split ''1  gw.example.net (10.0.0.1)  1.233 ms * 1.234 ms'' =
      [''1'', ''gw.example.net'', ''(10.0.0.1)'', ''1.233'', ''ms'', ''*'', ''1.234'', ''ms'']"
    by code_simp
  have sc0: "scan_parts dec_float [''1'', ''gw.example.net'', ''(10.0.0.1)'', ''1.233'', ''ms'', ''*'', ''1.234'', ''ms''] =
      ([1.233, 1.234], [(''gw.example.net'', ''(10.0.0.1)'')])"
    by (simp add: scan_eval float_eval)
  show ?thesis
    unfolding parse_traceroute_output_def sl
    by (simp add: sp0 sc0 parse_hop_def is_timeout_def stat_eval lat_get_def replicate3)
qed

lemma aggregate_two_probes_twice:
  "get_statistics_per_hop
     [[\<lparr>avg = Some 1.23, hop = ''1'', hosts = [(''gw.example.net'', ''(10.0.0.1)'')],
        maximum = Some 1.234, median = Some 1.2335, minimum = Some 1.234\<rparr>],
      [\<lparr>avg = Some 1.23, hop = ''1'', hosts = [(''gw.example.net'', ''(10.0.0.1)'')],
        maximum = Some 1.234, median = Some 1.2335, minimum = Some 1.234\<rparr>]] =
   Inr [\<lparr>s_avg = Some 1.23, s_hop = ''1'', s_hosts = [[(''gw.example.net'', ''(10.0.0.1)'')], [(''gw.example.net'', ''(10.0.0.1)'')]],
        s_max = Some 1.234, s_med = Some 1.234, s_min = Some 1.234\<rparr>]"
  by code_simp

text \<open>
  C8, as stated, fails: the per-run median is not rounded, the aggregate median is rounded to
  three places. A hop with the two samples 1.233 and 1.234 has the per-run median 1.2335 and,
  with the run fed twice, the aggregate median 1.234.
\<close>

theorem same_run_twice_median_rounded_example:
  "parse_traceroute_output dec_float
     (''traceroute to 10.0.0.9, 30 hops max'' @ [CHR 0x0A] @
      ''1  gw.example.net (10.0.0.1)  1.233 ms * 1.234 ms'') [] =
   Inr ([\<lparr>avg = Some 1.23, hop = ''1'', hosts = [(''gw.example.net'', ''(10.0.0.1)'')],
        maximum = Some 1.234, median = Some 1.2335, minimum = Some 1.234\<rparr>],
        [(''1'', [1.233, 1.234])]) \<and>
   get_statistics_per_hop
     [[\<lparr>avg = Some 1.23, hop = ''1'', hosts = [(''gw.example.net'', ''(10.0.0.1)'')],
        maximum = Some 1.234, median = Some 1.2335, minimum = Some 1.234\<rparr>],
      [\<lparr>avg = Some 1.23, hop = ''1'', hosts = [(''gw.example.net'', ''(10.0.0.1)'')],
        maximum = Some 1.234, median = Some 1.2335, minimum = Some 1.234\<rparr>]] =
   Inr [\<lparr>s_avg = Some 1.23, s_hop = ''1'', s_hosts = [[(''gw.example.net'', ''(10.0.0.1)'')], [(''gw.example.net'', ''(10.0.0.1)'')]],
        s_max = Some 1.234, s_med = Some 1.234, s_min = Some 1.234\<rparr>]"
  using parse_two_probes aggregate_two_probes_twice by (rule conjI)

text \<open>
  C8, amended: let a run be parsed from text, with distinct integer hop indices. Fed twice,
  it gives for every hop with a non-zero average exactly one aggregate record, whose average
  is the per-run average and whose median is the per-run median rounded to three decimal
  places.
\<close>

theorem same_run_twice:
  assumes "parse_traceroute_output fl data lat = Inr (run, lat')"
    and "distinct (map hop run)"
    and "\<forall>r\<in>set run. py_int (hop r) \<noteq> None"
    and "r \<in> set run" and "avg r = Some a" and "a \<noteq> 0"
  shows "\<exists>res s. get_statistics_per_hop [run, run] = Inr res \<and> s \<in> set res \<and>
           s_hop s = hop r \<and> (\<forall>t\<in>set res. s_hop t = hop r \<longrightarrow> t = s) \<and>
           s_avg s = avg r \<and> s_med s = map_option (\<lambda>m. py_round m 3) (median r)"
proof -
  have ok: "\<forall>x\<in>set run. parsed_ok x"
    using parse_output_ok [OF assms(1)] by blast
  then have wf: "\<forall>x\<in>set (concat [run, run]). all_or_none x"
    by (auto simp: parsed_ok_def all_or_none_def)
  have num: "\<forall>x\<in>set (concat [run, run]). py_int (hop x) \<noteq> None"
    using assms(3) by simp
  obtain res where res: "get_statistics_per_hop [run, run] = Inr res"
    using stats_total [OF wf num] by blast
  have "hop r \<in> set (map s_hop res)" using stats_hops [OF res] assms(4) by simp
  then obtain s where s: "s \<in> set res" "s_hop s = hop r" by auto
  have uniq: "t = s" if "t \<in> set res" "s_hop t = hop r" for t
    using stats_hops [OF res] s that by (metis distinct_map inj_onD)
  have "filter (\<lambda>y. hop y = hop r) run = [r]"
    using filter_key_distinct [OF assms(2,4)] .
  then have "filter (\<lambda>y. hop y = hop r \<and> truthy (avg y)) run = [r]"
    using assms(5,6) by (simp add: filter_filter [symmetric] truthy_def del: filter_filter)
  then have c: "contrib (hop r) (concat [run, run]) = [r, r]"
    by (simp add: contrib_def)
  have "parsed_ok r" using ok assms(4) by blast
  then obtain x mx md where f: "avg r = Some (py_round x 2)" "maximum r = Some mx"
      "median r = Some md" "minimum r = Some mx"
    using assms(5) unfolding parsed_ok_def by auto
  have "hop_stats_of (hop r, acc_of [r, r]) = Inr s"
    using stats_member [OF res s(1)] s(2) c by simp
  then have "s_avg s = Some (py_round (py_round x 2) 3) \<and> s_med s = Some (py_round md 3)"
    using f by (auto simp: hop_stats_of_def acc_of_def stat_of_def py_mean_def py_median_pair
        split: sum.splits)
  then have "s_avg s = avg r \<and> s_med s = map_option (\<lambda>m. py_round m 3) (median r)"
    using f by (simp add: py_round_3_2)
  then show ?thesis using res s uniq by blast
qed

text \<open>
  C8, amended, at the run of the example above.
\<close>

theorem same_run_twice_witness:
  "(parse_traceroute_output dec_float
     (''traceroute to 10.0.0.9, 30 hops max'' @ [CHR 0x0A] @
      ''1  gw.example.net (10.0.0.1)  1.233 ms * 1.234 ms'') [] =
   Inr ([\<lparr>avg = Some 1.23, hop = ''1'', hosts = [(''gw.example.net'', ''(10.0.0.1)'')],
        maximum = Some 1.234, median = Some 1.2335, minimum = Some 1.234\<rparr>],
        [(''1'', [1.233, 1.234])])) \<and>
   (distinct (map hop [\<lparr>avg = Some 1.23, hop = ''1'', hosts = [(''gw.example.net'', ''(10.0.0.1)'')],
        maximum = Some 1.234, median = Some 1.2335, minimum = Some 1.234\<rparr>])) \<and>
   (\<lparr>avg = Some 1.23, hop = ''1'', hosts = [(''gw.example.net'', ''(10.0.0.1)'')],
        maximum = Some 1.234, median = Some 1.2335, minimum = Some 1.234\<rparr> \<in> set [\<lparr>avg = Some 1.23, hop = ''1'', hosts = [(''gw.example.net'', ''(10.0.0.1)'')],
        maximum = Some 1.234, median = Some 1.2335, minimum = Some 1.234\<rparr>]) \<and>
   (avg \<lparr>avg = Some 1.23, hop = ''1'', hosts = [(''gw.example.net'', ''(10.0.0.1)'')],
        maximum = Some 1.234, median = Some 1.2335, minimum = Some 1.234\<rparr> = Some 1.23) \<and>
   ((1.23 :: real) \<noteq> 0) \<and>
   (\<exists>res s. get_statistics_per_hop [[\<lparr>avg = Some 1.23, hop = ''1'', hosts = [(''gw.example.net'', ''(10.0.0.1)'')],
        maximum = Some 1.234, median = Some 1.2335, minimum = Some 1.234\<rparr>], [\<lparr>avg = Some 1.23, hop = ''1'', hosts = [(''gw.example.net'', ''(10.0.0.1)'')],
        maximum = Some 1.234, median = Some 1.2335, minimum = Some 1.234\<rparr>]] = Inr res \<and> s \<in> set res \<and>
      s_hop s = hop \<lparr>avg = Some 1.23, hop = ''1'', hosts = [(''gw.example.net'', ''(10.0.0.1)'')],
        maximum = Some 1.234, median = Some 1.2335, minimum = Some 1.234\<rparr> \<and>
      (\<forall>t\<in>set res. s_hop t = hop \<lparr>avg = Some 1.23, hop = ''1'', hosts = [(''gw.example.net'', ''(10.0.0.1)'')],
        maximum = Some 1.234, median = Some 1.2335, minimum = Some 1.234\<rparr> \<longrightarrow> t = s) \<and>
      s_avg s = avg \<lparr>avg = Some 1.23, hop = ''1'', hosts = [(''gw.example.net'', ''(10.0.0.1)'')],
        maximum = Some 1.234, median = Some 1.2335, minimum = Some 1.234\<rparr> \<and>
      s_med s = map_option (\<lambda>m. py_round m 3) (median \<lparr>avg = Some 1.23, hop = ''1'', hosts = [(''gw.example.net'', ''(10.0.0.1)'')],
        maximum = Some 1.234, median = Some 1.2335, minimum = Some 1.234\<rparr>))"
proof -
  have h1: "parse_traceroute_output dec_float
     (''traceroute to 10.0.0.9, 30 hops max'' @ [CHR 0x0A] @
      ''1  gw.example.net (10.0.0.1)  1.233 ms * 1.234 ms'') [] =
   Inr ([\<lparr>avg = Some 1.23, hop = ''1'', hosts = [(''gw.example.net'', ''(10.0.0.1)'')],
        maximum = Some 1.234, median = Some 1.2335, minimum = Some 1.234\<rparr>],
        [(''1'', [1.233, 1.234])])"
    by (rule parse_two_probes)
  have h2: "distinct (map hop [\<lparr>avg = Some 1.23, hop = ''1'', hosts = [(''gw.example.net'', ''(10.0.0.1)'')],
        maximum = Some 1.234, median = Some 1.2335, minimum = Some 1.234\<rparr>])"
    by simp
  have h3: "\<forall>r\<in>set [\<lparr>avg = Some 1.23, hop = ''1'', hosts = [(''gw.example.net'', ''(10.0.0.1)'')],
        maximum = Some 1.234, median = Some 1.2335, minimum = Some 1.234\<rparr>]. py_int (hop r) \<noteq> None"
    by code_simp
  have h4: "\<lparr>avg = Some 1.23, hop = ''1'', hosts = [(''gw.example.net'', ''(10.0.0.1)'')],
        maximum = Some 1.234, median = Some 1.2335, minimum = Some 1.234\<rparr> \<in> set [\<lparr>avg = Some 1.23, hop = ''1'', hosts = [(''gw.example.net'', ''(10.0.0.1)'')],
        maximum = Some 1.234, median = Some 1.2335, minimum = Some 1.234\<rparr>]"
    by simp
  have h5: "avg \<lparr>avg = Some 1.23, hop = ''1'', hosts = [(''gw.example.net'', ''(10.0.0.1)'')],
        maximum = Some 1.234, median = Some 1.2335, minimum = Some 1.234\<rparr> = Some 1.23"
    by simp
  have h6: "(1.23 :: real) \<noteq> 0"
    by simp
  show ?thesis
    using h1 h2 h3 h4 h5 h6 same_run_twice [OF h1 h2 h3 h4 h5 h6]
    by blast
qed

section \<open>C9: a malformed latency token\<close>

text \<open>
  C9: let token \<open>i\<close> of a line be an \<open>ms\<close> marker and not an address, and let the
  token before it not parse as a float. Then the step of the scan at \<open>i\<close> changes neither
  the samples nor the hosts, the scan of the line is the scan of all its other indices, the
  line is parsed without error, and parsing goes on with the lines that follow.
\<close>

theorem malformed_latency_token_skipped:
  assumes "0 < i" and "i < length parts" and "py_split line = parts"
    and "\<not> (CHR ''('' \<in> set (parts ! i) \<and> CHR '')'' \<in> set (parts ! i))"
    and "py_in ''ms'' (parts ! i)" and "fl (parts ! (i - 1)) = None"
  shows "scan_step fl parts i acc = acc \<and>
         scan_parts fl parts =
           fold (scan_step fl parts) ([1..<i] @ [Suc i..<length parts]) ([], []) \<and>
         (\<exists>st'. parse_hop fl line st = Inr st' \<and>
                 parse_hops fl (line # rest) st = parse_hops fl rest st')"
proof -
  have step: "scan_step fl parts i a = a" for a
    using assms(4-6) by (auto simp: scan_step_def Let_def)
  have "[1..<length parts] = [1..<i] @ [i..<length parts]"
    using assms(1,2) upt_add_eq_append [of 1 i "length parts - i"] by simp
  then have "[1..<length parts] = [1..<i] @ i # [Suc i..<length parts]"
    using assms(2) by (simp add: upt_conv_Cons)
  then have "scan_parts fl parts =
      fold (scan_step fl parts) ([1..<i] @ [Suc i..<length parts]) ([], [])"
    using step by (simp add: scan_parts_def)
  moreover have "py_split line \<noteq> []" using assms(2,3) by auto
  then obtain st' where "parse_hop fl line st = Inr st'"
    using parse_hop_total [of line fl st] by blast
  ultimately show ?thesis using step by auto
qed

text \<open>
  C9 at the line \<open>1  gw.example.net (10.0.0.1)  n/a ms  1.5 ms\<close>, token 4.
\<close>

theorem malformed_latency_token_skipped_witness:
  "((0::nat) < 4) \<and>
   (4 < length [''1'', ''gw.example.net'', ''(10.0.0.1)'', ''n/a'', ''ms'', ''1.5'', ''ms'']) \<and>
   (py_split ''1  gw.example.net (10.0.0.1)  n/a ms  1.5 ms'' = [''1'', ''gw.example.net'', ''(10.0.0.1)'', ''n/a'', ''ms'', ''1.5'', ''ms'']) \<and>
   (\<not> (CHR ''('' \<in> set ([''1'', ''gw.example.net'', ''(10.0.0.1)'', ''n/a'', ''ms'', ''1.5'', ''ms''] ! 4) \<and> CHR '')'' \<in> set ([''1'', ''gw.example.net'', ''(10.0.0.1)'', ''n/a'', ''ms'', ''1.5'', ''ms''] ! 4))) \<and>
   (py_in ''ms'' ([''1'', ''gw.example.net'', ''(10.0.0.1)'', ''n/a'', ''ms'', ''1.5'', ''ms''] ! 4)) \<and>
   (dec_float ([''1'', ''gw.example.net'', ''(10.0.0.1)'', ''n/a'', ''ms'', ''1.5'', ''ms''] ! (4 - 1)) = None) \<and>
   (scan_step dec_float [''1'', ''gw.example.net'', ''(10.0.0.1)'', ''n/a'', ''ms'', ''1.5'', ''ms''] 4 ([], []) = ([], []) \<and>
    scan_parts dec_float [''1'', ''gw.example.net'', ''(10.0.0.1)'', ''n/a'', ''ms'', ''1.5'', ''ms''] =
      fold (scan_step dec_float [''1'', ''gw.example.net'', ''(10.0.0.1)'', ''n/a'', ''ms'', ''1.5'', ''ms''])
        ([1..<4] @ [Suc 4..<length [''1'', ''gw.example.net'', ''(10.0.0.1)'', ''n/a'', ''ms'', ''1.5'', ''ms'']]) ([], []) \<and>
    (\<exists>st'. parse_hop dec_float ''1  gw.example.net (10.0.0.1)  n/a ms  1.5 ms'' ([], []) = Inr st' \<and>
       parse_hops dec_float [''1  gw.example.net (10.0.0.1)  n/a ms  1.5 ms''] ([], []) = parse_hops dec_float [] st'))"
proof -
  have h1: "(0::nat) < 4"
    by simp
  have h2: "4 < length [''1'', ''gw.example.net'', ''(10.0.0.1)'', ''n/a'', ''ms'', ''1.5'', ''ms'']"
    by simp
  have h3: "py_split ''1  gw.example.net (10.0.0.1)  n/a ms  1.5 ms'' = [''1'', ''gw.example.net'', ''(10.0.0.1)'', ''n/a'', ''ms'', ''1.5'', ''ms'']"
    by code_simp
  have h4: "\<not> (CHR ''('' \<in> set ([''1'', ''gw.example.net'', ''(10.0.0.1)'', ''n/a'', ''ms'', ''1.5'', ''ms''] ! 4) \<and> CHR '')'' \<in> set ([''1'', ''gw.example.net'', ''(10.0.0.1)'', ''n/a'', ''ms'', ''1.5'', ''ms''] ! 4))"
    by simp
  have h5: "py_in ''ms'' ([''1'', ''gw.example.net'', ''(10.0.0.1)'', ''n/a'', ''ms'', ''1.5'', ''ms''] ! 4)"
    by simp
  have h6: "dec_float ([''1'', ''gw.example.net'', ''(10.0.0.1)'', ''n/a'', ''ms'', ''1.5'', ''ms''] ! (4 - 1)) = None"
    by code_simp
  show ?thesis
    using h1 h2 h3 h4 h5 h6 malformed_latency_token_skipped [where i = 4 and parts = "[''1'', ''gw.example.net'', ''(10.0.0.1)'', ''n/a'', ''ms'', ''1.5'', ''ms'']"
        and line = "''1  gw.example.net (10.0.0.1)  n/a ms  1.5 ms''" and fl = dec_float and acc = "([], [])" and st = "([], [])"
        and rest = "[]"]
    by blast
qed

section \<open>C10: numeric fields are null together\<close>

text \<open>
  C10: every record that the parser returns for a run has its four numeric fields all null
  or all non-null.
\<close>

theorem parsed_records_all_or_none:
  assumes "parse_traceroute_output fl data lat = Inr (out, lat')" and "r \<in> set out"
  shows "(avg r = None \<and> maximum r = None \<and> median r = None \<and> minimum r = None) \<or>
         (avg r \<noteq> None \<and> maximum r \<noteq> None \<and> median r \<noteq> None \<and> minimum r \<noteq> None)"
  using parse_output_ok [OF assms] by (auto simp: parsed_ok_def)

text \<open>
  C10 at a run with one answered hop and one timeout.
\<close>

theorem parsed_records_all_or_none_witness:
  "(parse_traceroute_output dec_float
     (''traceroute to 10.0.0.9, 30 hops max'' @ [CHR 0x0A] @
      ''5  192.168.1.1 (192.168.1.1)  1.234 ms  1.456 ms  1.789 ms'' @ [CHR 0x0A] @
      ''6  * * *'') [] =
     Inr ([\<lparr>avg = Some 1.49, hop = ''5'', hosts = [(''192.168.1.1'', ''(192.168.1.1)'')],
        maximum = Some 1.789, median = Some 1.456, minimum = Some 1.789\<rparr>,
         \<lparr>avg = None, hop = ''6'', hosts = [],
        maximum = None, median = None, minimum = None\<rparr>],
        [(''5'', [1.234, 1.456, 1.789])])) \<and>
   (\<lparr>avg = Some 1.49, hop = ''5'', hosts = [(''192.168.1.1'', ''(192.168.1.1)'')],
        maximum = Some 1.789, median = Some 1.456, minimum = Some 1.789\<rparr> \<in> set [\<lparr>avg = Some 1.49, hop = ''5'', hosts = [(''192.168.1.1'', ''(192.168.1.1)'')],
        maximum = Some 1.789, median = Some 1.456, minimum = Some 1.789\<rparr>,
         \<lparr>avg = None, hop = ''6'', hosts = [],
        maximum = None, median = None, minimum = None\<rparr>]) \<and>
   ((avg \<lparr>avg = Some 1.49, hop = ''5'', hosts = [(''192.168.1.1'', ''(192.168.1.1)'')],
        maximum = Some 1.789, median = Some 1.456, minimum = Some 1.789\<rparr> = None \<and> maximum \<lparr>avg = Some 1.49, hop = ''5'', hosts = [(''192.168.1.1'', ''(192.168.1.1)'')],
        maximum = Some 1.789, median = Some 1.456, minimum = Some 1.789\<rparr> = None \<and>
     median \<lparr>avg = Some 1.49, hop = ''5'', hosts = [(''192.168.1.1'', ''(192.168.1.1)'')],
        maximum = Some 1.789, median = Some 1.456, minimum = Some 1.789\<rparr> = None \<and> minimum \<lparr>avg = Some 1.49, hop = ''5'', hosts = [(''192.168.1.1'', ''(192.168.1.1)'')],
        maximum = Some 1.789, median = Some 1.456, minimum = Some 1.789\<rparr> = None) \<or>
    (avg \<lparr>avg = Some 1.49, hop = ''5'', hosts = [(''192.168.1.1'', ''(192.168.1.1)'')],
        maximum = Some 1.789, median = Some 1.456, minimum = Some 1.789\<rparr> \<noteq> None \<and> maximum \<lparr>avg = Some 1.49, hop = ''5'', hosts = [(''192.168.1.1'', ''(192.168.1.1)'')],
        maximum = Some 1.789, median = Some 1.456, minimum = Some 1.789\<rparr> \<noteq> None \<and>
     median \<lparr>avg = Some 1.49, hop = ''5'', hosts = [(''192.168.1.1'', ''(192.168.1.1)'')],
        maximum = Some 1.789, median = Some 1.456, minimum = Some 1.789\<rparr> \<noteq> None \<and> minimum \<lparr>avg = Some 1.49, hop = ''5'', hosts = [(''192.168.1.1'', ''(192.168.1.1)'')],
        maximum = Some 1.789, median = Some 1.456, minimum = Some 1.789\<rparr> \<noteq> None))"
proof -
  have h1: "parse_traceroute_output dec_float
     (''traceroute to 10.0.0.9, 30 hops max'' @ [CHR 0x0A] @
      ''5  192.168.1.1 (192.168.1.1)  1.234 ms  1.456 ms  1.789 ms'' @ [CHR 0x0A] @
      ''6  * * *'') [] =
     Inr ([\<lparr>avg = Some 1.49, hop = ''5'', hosts = [(''192.168.1.1'', ''(192.168.1.1)'')],
        maximum = Some 1.789, median = Some 1.456, minimum = Some 1.789\<rparr>,
         \<lparr>avg = None, hop = ''6'', hosts = [],
        maximum = None, median = None, minimum = None\<rparr>],
        [(''5'', [1.234, 1.456, 1.789])])"
    proof -
      have sl: "splitlines (''traceroute to 10.0.0.9, 30 hops max'' @ [CHR 0x0A] @
          ''5  192.168.1.1 (192.168.1.1)  1.234 ms  1.456 ms  1.789 ms'' @ [CHR 0x0A] @
          ''6  * * *'') =
          [''traceroute to 10.0.0.9, 30 hops max'', ''5  192.168.1.1 (192.168.1.1)  1.234 ms  1.456 ms  1.789 ms'', ''6  * * *'']"
        by code_simp
      have sp0: "py_split ''5  192.168.1.1 (192.168.1.1)  1.234 ms  1.456 ms  1.789 ms'' =
          [''5'', ''192.168.1.1'', ''(192.168.1.1)'', ''1.234'', ''ms'', ''1.456'', ''ms'', ''1.789'', ''ms'']"
        by code_simp
      have sc0: "scan_parts dec_float [''5'', ''192.168.1.1'', ''(192.168.1.1)'', ''1.234'', ''ms'', ''1.456'', ''ms'', ''1.789'', ''ms''] =
          ([1.234, 1.456, 1.789], [(''192.168.1.1'', ''(192.168.1.1)'')])"
        by (simp add: scan_eval float_eval)
      have sp1: "py_split ''6  * * *'' =
          [''6'', ''*'', ''*'', ''*'']"
        by code_simp
      show ?thesis
        unfolding parse_traceroute_output_def sl
        by (simp add: sp0 sc0 sp1 parse_hop_def is_timeout_def stat_eval lat_get_def replicate3)
    qed
  have h2: "\<lparr>avg = Some 1.49, hop = ''5'', hosts = [(''192.168.1.1'', ''(192.168.1.1)'')],
        maximum = Some 1.789, median = Some 1.456, minimum = Some 1.789\<rparr> \<in> set [\<lparr>avg = Some 1.49, hop = ''5'', hosts = [(''192.168.1.1'', ''(192.168.1.1)'')],
        maximum = Some 1.789, median = Some 1.456, minimum = Some 1.789\<rparr>,
         \<lparr>avg = None, hop = ''6'', hosts = [],
        maximum = None, median = None, minimum = None\<rparr>]"
    by simp
  show ?thesis
    using h1 h2 parsed_records_all_or_none [OF h1 h2]
    by blast
qed

end
